theory Spec2Isabelle
  imports Complex_Main
begin

section \<open>JavaScript strings\<close>

text \<open>
  A JavaScript string is a sequence of UTF-16 code units, and the string methods the
  code calls (\<open>length\<close>, \<open>split\<close>, \<open>substring\<close>, \<open>startsWith\<close>, \<open>trim\<close>, \<open>replace\<close>) work
  on code units. A string is therefore a list of code units, each a natural number
  (below 65536 in every string that JavaScript can hold). \<open>js\<close> gives the string of an
  ASCII literal and \<open>cu\<close> the code unit of an ASCII character.
\<close>

type_synonym code_unit = nat

type_synonym jstring = "code_unit list"

definition cu :: "char \<Rightarrow> code_unit" where
  "cu c = of_char c"

definition js :: "string \<Rightarrow> jstring" where
  "js s = map of_char s"

text \<open>
  The code units that \<open>trim\<close> and \<open>Number\<close> strip: the white space of the language
  (tab, vertical tab, form feed, space, no-break space, the byte order mark U+FEFF and the
  space separators U+1680, U+2000 to U+200A, U+202F, U+205F, U+3000) and its line
  terminators (line feed, carriage return, U+2028, U+2029).
\<close>

definition isWhiteSpace :: "code_unit \<Rightarrow> bool" where
  "isWhiteSpace c \<longleftrightarrow>
     c \<in> set [0x0009, 0x000A, 0x000B, 0x000C, 0x000D, 0x0020, 0x00A0, 0x1680,
               0x2000, 0x2001, 0x2002, 0x2003, 0x2004, 0x2005, 0x2006, 0x2007,
               0x2008, 0x2009, 0x200A, 0x2028, 0x2029, 0x202F, 0x205F, 0x3000, 0xFEFF]"

definition trim :: "jstring \<Rightarrow> jstring" where
  "trim s = rev (dropWhile isWhiteSpace (rev (dropWhile isWhiteSpace s)))"

definition lowerLetters :: jstring where
  "lowerLetters = js ''abcdefghijklmnopqrstuvwxyz''"

definition upperLetters :: jstring where
  "upperLetters = js ''ABCDEFGHIJKLMNOPQRSTUVWXYZ''"

text \<open>
  Case conversion of the 26 ASCII letters. For the characters outside ASCII the
  conversion of the language is not modelled, and they are left as they are. The code
  uses the converted string only to compare it with one of the words \<open>m\<close>, \<open>male\<close>, \<open>f\<close>,
  \<open>female\<close>, \<open>o\<close>, \<open>other\<close> in one letter case, and the outcome of these comparisons is
  the same: the only characters outside ASCII whose lower-case form contains an ASCII
  letter are U+0130 and the Kelvin sign (giving \<open>i\<close> and \<open>k\<close>), those whose upper-case
  form does are the dotless i and the long s (giving \<open>I\<close> and \<open>S\<close>), the sharp s and
  the ligatures U+FB00 to U+FB06 (giving \<open>SS\<close>, \<open>FF\<close>, \<open>FI\<close>, \<open>FL\<close>, \<open>FFI\<close>, \<open>FFL\<close>,
  \<open>ST\<close>) and a few letters that keep a mark outside ASCII next to the letter, and
  none of these forms occurs in one of the six words.
\<close>

definition toUpperChar :: "code_unit \<Rightarrow> code_unit" where
  "toUpperChar c = (case map_of (zip lowerLetters upperLetters) c of Some u \<Rightarrow> u | None \<Rightarrow> c)"

definition toLowerChar :: "code_unit \<Rightarrow> code_unit" where
  "toLowerChar c = (case map_of (zip upperLetters lowerLetters) c of Some l \<Rightarrow> l | None \<Rightarrow> c)"

definition toUpperCase :: "jstring \<Rightarrow> jstring" where
  "toUpperCase s = map toUpperChar s"

definition toLowerCase :: "jstring \<Rightarrow> jstring" where
  "toLowerCase s = map toLowerChar s"

definition startsWith :: "jstring \<Rightarrow> jstring \<Rightarrow> bool" where
  "startsWith s p \<longleftrightarrow> take (length p) s = p"

text \<open>
  \<open>s.split(sep)\<close> for a separator of one code unit: the pieces between the separators,
  so the result is never empty and the empty string splits into one empty piece.
\<close>

fun str_split :: "code_unit \<Rightarrow> jstring \<Rightarrow> jstring list" where
  "str_split sep [] = [[]]"
| "str_split sep (c # cs) =
     (if c = sep then [] # str_split sep cs
      else (case str_split sep cs of
              w # ws \<Rightarrow> (c # w) # ws
            | [] \<Rightarrow> [[c]]))"

text \<open>\<open>parts.join(sep)\<close>.\<close>

fun str_join :: "code_unit \<Rightarrow> jstring list \<Rightarrow> jstring" where
  "str_join sep [] = []"
| "str_join sep [w] = w"
| "str_join sep (w # v # ws) = w @ sep # str_join sep (v # ws)"

text \<open>
  \<open>xs[i] || d\<close> on an array of strings: an index past the end reads \<open>undefined\<close>, and
  both \<open>undefined\<close> and the empty string are falsy, so the default is taken for either.
\<close>

definition at_or :: "jstring list \<Rightarrow> nat \<Rightarrow> jstring \<Rightarrow> jstring" where
  "at_or xs i d = (if i < length xs \<and> xs ! i \<noteq> [] then xs ! i else d)"

text \<open>\<open>xs[i] || undefined\<close>: the attribute is left out for a missing or empty piece.\<close>

definition at_opt :: "jstring list \<Rightarrow> nat \<Rightarrow> jstring option" where
  "at_opt xs i = (if i < length xs \<and> xs ! i \<noteq> [] then Some (xs ! i) else None)"

text \<open>
  The names that every object literal inherits. Reading one of them from an object
  literal used as a table yields the inherited member, a function or an object, which
  is truthy and is not a string.
\<close>

definition inheritedKeys :: "jstring list" where
  "inheritedKeys =
     [js ''constructor'', js ''hasOwnProperty'', js ''isPrototypeOf'',
      js ''propertyIsEnumerable'', js ''toLocaleString'', js ''toString'', js ''valueOf'',
      js ''__proto__'', js ''__defineGetter__'', js ''__defineSetter__'',
      js ''__lookupGetter__'', js ''__lookupSetter__'']"

section \<open>Sex normalization\<close>

datatype gender = male | female | other | unknown

text \<open>\<open>normalizeGender\<close> of the tabular parser (csv-parser.ts): lower-case, then trim.\<close>

definition normalizeGender_csv :: "jstring \<Rightarrow> gender" where
  "normalizeGender_csv g =
     (let normalized = trim (toLowerCase g) in
      if normalized = js ''male'' \<or> normalized = js ''m'' then male
      else if normalized = js ''female'' \<or> normalized = js ''f'' then female
      else if normalized = js ''other'' \<or> normalized = js ''o'' then other
      else unknown)"

text \<open>\<open>normalizeGender\<close> of the segmented parser (hl7v2-parser.ts): upper-case, then trim.\<close>

definition normalizeGender_hl7 :: "jstring \<Rightarrow> gender" where
  "normalizeGender_hl7 g =
     (let normalized = trim (toUpperCase g) in
      if normalized = js ''M'' \<or> normalized = js ''MALE'' then male
      else if normalized = js ''F'' \<or> normalized = js ''FEMALE'' then female
      else if normalized = js ''O'' \<or> normalized = js ''OTHER'' then other
      else unknown)"

section \<open>Dispatcher: counting the replies of the store\<close>

record reply =
  status :: "jstring option"
  location :: "jstring option"

record reply_entry =
  response :: "reply option"

record FHIRBundleResponse =
  reply_entries :: "reply_entry list option"

text \<open>The filter predicate \<open>e.response?.status?.startsWith('20')\<close>.\<close>

definition isSuccess :: "reply_entry \<Rightarrow> bool" where
  "isSuccess e =
     (case response e of
        None \<Rightarrow> False
      | Some r \<Rightarrow> (case status r of None \<Rightarrow> False | Some s \<Rightarrow> startsWith s (js ''20'')))"

text \<open>\<open>result.entry?.filter(...).length || 0\<close>.\<close>

definition successCount :: "FHIRBundleResponse \<Rightarrow> nat" where
  "successCount result =
     (case reply_entries result of None \<Rightarrow> 0 | Some es \<Rightarrow> length (filter isSuccess es))"

text \<open>\<open>(result.entry?.length || 0) - successCount\<close>.\<close>

definition errorCount :: "FHIRBundleResponse \<Rightarrow> int" where
  "errorCount result =
     int (case reply_entries result of None \<Rightarrow> 0 | Some es \<Rightarrow> length es)
       - int (successCount result)"

section \<open>JavaScript numbers\<close>

text \<open>
  A number is a double. The finite doubles are rational numbers, so a number is a
  rational that is a double, or one of the infinities, or the negative zero; \<open>Finite 0\<close>
  is the positive zero. \<open>NaN\<close> is not among them: where the code can meet it, the model
  has an option.
\<close>

datatype js_number = Finite rat | PosInfinity | NegInfinity | NegZero

definition pow2 :: "int \<Rightarrow> rat" where
  "pow2 e = (if 0 \<le> e then 2 ^ nat e else 1 / 2 ^ nat (- e))"

fun bitLength :: "nat \<Rightarrow> nat" where
  "bitLength n = (if n = 0 then 0 else Suc (bitLength (n div 2)))"

declare bitLength.simps [simp del]

text \<open>For a positive rational \<open>q\<close>, the exponent \<open>e\<close> with \<open>2 ^ e \<le> q < 2 ^ (e + 1)\<close>.\<close>

definition binaryExponent :: "rat \<Rightarrow> int" where
  "binaryExponent q =
     (case quotient_of q of
        (n, d) \<Rightarrow>
          (let e0 = int (bitLength (nat n)) - int (bitLength (nat d))
           in if pow2 e0 \<le> q then e0 else e0 - 1))"

definition roundHalfEven :: "rat \<Rightarrow> int" where
  "roundHalfEven x =
     (let f = \<lfloor>x\<rfloor>; r = x - of_int f
      in if r < 1 / 2 then f
         else if 1 / 2 < r then f + 1
         else if even f then f else f + 1)"

text \<open>
  The double nearest to a rational \<open>q \<ge> 0\<close>, ties to the even significand: 53 bits of
  significand for a normal number, a multiple of \<open>2 ^ - 1074\<close> below \<open>2 ^ - 1022\<close>, and
  \<open>None\<close>, for infinity, when the rounded value reaches \<open>2 ^ 1024\<close>.
\<close>

definition nearestDouble :: "rat \<Rightarrow> rat option" where
  "nearestDouble q =
     (if q \<le> 0 then Some 0
      else (let u = max (binaryExponent q - 52) (- 1074);
                r = of_int (roundHalfEven (q / pow2 u)) * pow2 u
            in if pow2 1024 \<le> r then None else Some r))"

definition toNumber :: "bool \<Rightarrow> rat \<Rightarrow> js_number" where
  "toNumber negative q =
     (case nearestDouble q of
        None \<Rightarrow> (if negative then NegInfinity else PosInfinity)
      | Some r \<Rightarrow> (if negative then (if r = 0 then NegZero else Finite (- r)) else Finite r))"

text \<open>
  \<open>Number(s)\<close> reads a string as a numeric literal: surrounding white space is dropped,
  the empty string is \<open>0\<close>, a literal is a signed decimal (digits, an optional fraction,
  an optional exponent, or \<open>Infinity\<close>) or an unsigned binary, octal or hexadecimal
  integer, and everything else is \<open>NaN\<close>, here \<open>None\<close>. The value of a literal is its
  mathematical value rounded to the nearest double. (The language lets an engine round
  a decimal literal of more than 20 significant digits less exactly; Node rounds it
  correctly, and so does the model.)
\<close>

definition digitValue :: "code_unit \<Rightarrow> nat option" where
  "digitValue c =
     map_of (zip (js ''0123456789abcdef'') [0 ..< 16] @ zip (js ''ABCDEF'') [10 ..< 16]) c"

definition isDigitOf :: "nat \<Rightarrow> code_unit \<Rightarrow> bool" where
  "isDigitOf base c = (case digitValue c of None \<Rightarrow> False | Some d \<Rightarrow> d < base)"

definition digitsValue :: "nat \<Rightarrow> jstring \<Rightarrow> nat" where
  "digitsValue base ds =
     foldl (\<lambda>acc c. acc * base + (case digitValue c of None \<Rightarrow> 0 | Some d \<Rightarrow> d)) 0 ds"

text \<open>A non-decimal integer literal: \<open>0x\<close>, \<open>0o\<close> or \<open>0b\<close> and at least one digit.\<close>

definition nonDecimalLiteral :: "jstring \<Rightarrow> nat option" where
  "nonDecimalLiteral t =
     (case t of
        z # x # ds \<Rightarrow>
          (let base = (if x = cu CHR ''x'' \<or> x = cu CHR ''X'' then 16
                       else if x = cu CHR ''o'' \<or> x = cu CHR ''O'' then 8
                       else if x = cu CHR ''b'' \<or> x = cu CHR ''B'' then 2
                       else (0::nat))
           in if z = cu CHR ''0'' \<and> base \<noteq> 0 \<and> ds \<noteq> [] \<and> list_all (isDigitOf base) ds
              then Some (digitsValue base ds) else None)
      | _ \<Rightarrow> None)"

text \<open>The sign in front of a decimal literal or of an exponent.\<close>

definition takeSign :: "jstring \<Rightarrow> bool \<times> jstring" where
  "takeSign t =
     (case t of
        c # cs \<Rightarrow> (if c = cu CHR ''-'' then (True, cs)
                    else if c = cu CHR ''+'' then (False, cs)
                    else (False, t))
      | [] \<Rightarrow> (False, t))"

text \<open>The exponent part: nothing, or \<open>e\<close>, an optional sign and at least one digit.\<close>

definition exponentPart :: "jstring \<Rightarrow> int option" where
  "exponentPart t =
     (case t of
        [] \<Rightarrow> Some 0
      | c # cs \<Rightarrow>
          (if c = cu CHR ''e'' \<or> c = cu CHR ''E'' then
             (case takeSign cs of
                (neg, ds) \<Rightarrow>
                  (if ds \<noteq> [] \<and> list_all (isDigitOf 10) ds
                   then Some (if neg then - int (digitsValue 10 ds) else int (digitsValue 10 ds))
                   else None))
           else None))"

definition scale10 :: "rat \<Rightarrow> int \<Rightarrow> rat" where
  "scale10 m e = (if 0 \<le> e then m * 10 ^ nat e else m / 10 ^ nat (- e))"

text \<open>
  The mathematical value of an unsigned decimal literal: digits, or digits around a
  point with one side empty, and an exponent part.
\<close>

definition unsignedDecimal :: "jstring \<Rightarrow> rat option" where
  "unsignedDecimal t =
     (let ip = takeWhile (isDigitOf 10) t;
          r1 = dropWhile (isDigitOf 10) t;
          fp = (case r1 of c # cs \<Rightarrow> (if c = cu CHR ''.'' then takeWhile (isDigitOf 10) cs else [])
                         | [] \<Rightarrow> []);
          r2 = (case r1 of c # cs \<Rightarrow> (if c = cu CHR ''.'' then dropWhile (isDigitOf 10) cs else r1)
                         | [] \<Rightarrow> [])
      in if ip = [] \<and> fp = [] then None
         else (case exponentPart r2 of
                 None \<Rightarrow> None
               | Some e \<Rightarrow>
                   Some (scale10 (of_nat (digitsValue 10 (ip @ fp))) (e - int (length fp)))))"

definition Number :: "jstring \<Rightarrow> js_number option" where
  "Number s =
     (let t = trim s in
      if t = [] then Some (Finite 0)
      else (case nonDecimalLiteral t of
              Some n \<Rightarrow> Some (toNumber False (of_nat n))
            | None \<Rightarrow>
                (case takeSign t of
                   (neg, u) \<Rightarrow>
                     (if u = js ''Infinity'' then Some (if neg then NegInfinity else PosInfinity)
                      else (case unsignedDecimal u of
                              None \<Rightarrow> None
                            | Some q \<Rightarrow> Some (toNumber neg q))))))"

section \<open>The intermediate model (types.ts)\<close>

record PatientData =
  patientId :: jstring
  firstName :: jstring
  lastName :: jstring
  birthDate :: jstring
  gender :: gender
  addressLine :: "jstring option"
  city :: "jstring option"
  state :: "jstring option"
  postalCode :: "jstring option"
  phone :: "jstring option"
  email :: "jstring option"

text \<open>\<open>observationValue: number | string\<close>.\<close>

datatype obs_value = NumberValue js_number | StringValue jstring

text \<open>
  The type of \<open>observationType\<close> is a parameter of the observation record. It is
  declared a string, and the tabular parser and the callers of the mapper have a string
  there (\<open>jstring ObservationData\<close>). The segmented parser can leave an inherited member
  of its code table there, see \<open>tag_value\<close> below.
\<close>

record 'tag ObservationData =
  obs_patientId :: jstring
  observationType :: 'tag
  observationValue :: obs_value
  observationUnit :: jstring
  observationDate :: jstring

record 'tag ParsedData =
  patients :: "PatientData list"
  observations :: "'tag ObservationData list"

text \<open>
  A \<open>Map<string, V>\<close> keeps its keys in insertion order: a list of pairs with distinct
  keys, where \<open>set\<close> on a present key replaces the value in place and \<open>set\<close> on a new key
  appends.
\<close>

type_synonym 'v js_map = "(jstring \<times> 'v) list"

definition map_has :: "'v js_map \<Rightarrow> jstring \<Rightarrow> bool" where
  "map_has m k \<longleftrightarrow> k \<in> set (map fst m)"

definition map_get :: "'v js_map \<Rightarrow> jstring \<Rightarrow> 'v option" where
  "map_get m k = map_of m k"

definition map_set :: "'v js_map \<Rightarrow> jstring \<Rightarrow> 'v \<Rightarrow> 'v js_map" where
  "map_set m k v =
     (if map_has m k then map (\<lambda>(k', v'). if k' = k then (k', v) else (k', v')) m
      else m @ [(k, v)])"

definition map_values :: "'v js_map \<Rightarrow> 'v list" where
  "map_values m = map snd m"

text \<open>\<open>isNaN(Number(raw)) ? raw : Number(raw)\<close>, the coercion both parsers apply.\<close>

definition coerceValue :: "jstring \<Rightarrow> obs_value" where
  "coerceValue raw = (case Number raw of None \<Rightarrow> StringValue raw | Some n \<Rightarrow> NumberValue n)"

section \<open>The tabular parser (csv-parser.ts)\<close>


record 'tag parse_state =
  patientsMap :: "PatientData js_map"
  collected :: "'tag ObservationData list"

definition initial_state :: "'tag parse_state" where
  "initial_state = \<lparr> patientsMap = [], collected = [] \<rparr>"

text \<open>\<open>{ patients: Array.from(patientsMap.values()), observations }\<close>.\<close>

definition finish :: "'tag parse_state \<Rightarrow> 'tag ParsedData" where
  "finish st = \<lparr> patients = map_values (patientsMap st), observations = collected st \<rparr>"


text \<open>A string attribute is truthy when it is present and not empty.\<close>

definition truthy :: "jstring option \<Rightarrow> bool" where
  "truthy v = (case v of None \<Rightarrow> False | Some s \<Rightarrow> s \<noteq> [])"

text \<open>\<open>v || d\<close> on an optional string.\<close>

definition or_else :: "jstring option \<Rightarrow> jstring \<Rightarrow> jstring" where
  "or_else v d = (case v of None \<Rightarrow> d | Some s \<Rightarrow> (if s = [] then d else s))"



datatype parse_error = MalformedCSV


section \<open>The segmented-message parser (hl7v2-parser.ts)\<close>

record HL7Segment =
  seg_type :: jstring
  seg_fields :: "jstring list"

text \<open>
  The value that the segmented parser stores as \<open>observationType\<close>: a string, a type
  tag of the table or the sanitised code, or, for a code that is the name of a member
  every object inherits, that member, which is not a string.
\<close>

datatype tag_value = TypeTag jstring | ObjectMember jstring

text \<open>\<open>OBX_CODE_MAP\<close>.\<close>

definition OBX_CODE_MAP :: "(jstring \<times> jstring) list" where
  "OBX_CODE_MAP =
     [(js ''8480-6'', js ''blood_pressure_systolic''),
      (js ''8462-4'', js ''blood_pressure_diastolic''),
      (js ''8867-4'', js ''heart_rate''),
      (js ''8310-5'', js ''body_temperature''),
      (js ''2339-0'', js ''blood_glucose''),
      (js ''29463-7'', js ''body_weight''),
      (js ''2708-6'', js ''oxygen_saturation'')]"

text \<open>A split always has a first piece; the second case is never taken.\<close>

definition parseHL7Segment :: "jstring \<Rightarrow> HL7Segment" where
  "parseHL7Segment line =
     (case str_split (cu CHR ''|'') line of
        p # ps \<Rightarrow> \<lparr> seg_type = p, seg_fields = ps \<rparr>
      | [] \<Rightarrow> \<lparr> seg_type = [], seg_fields = [] \<rparr>)"

definition parseHL7Message :: "jstring \<Rightarrow> HL7Segment list" where
  "parseHL7Message content =
     map parseHL7Segment
       (filter (\<lambda>line. 0 < length (trim line)) (str_split (10::code_unit) content))"

text \<open>
  The loop of \<open>splitMessages\<close> over the lines, with \<open>currentMessage\<close> and \<open>messages\<close> as
  its state.
\<close>

definition flush :: "jstring list \<Rightarrow> jstring list \<Rightarrow> jstring list" where
  "flush currentMessage messages =
     (if 0 < length currentMessage then messages @ [str_join (10::code_unit) currentMessage]
      else messages)"

fun split_loop :: "jstring list \<Rightarrow> jstring list \<Rightarrow> jstring list \<Rightarrow> jstring list" where
  "split_loop [] currentMessage messages = flush currentMessage messages"
| "split_loop (line # rest) currentMessage messages =
     (if startsWith line (js ''MSH|'') then split_loop rest [line] (flush currentMessage messages)
      else if trim line \<noteq> [] then split_loop rest (currentMessage @ [line]) messages
      else split_loop rest currentMessage messages)"

definition splitMessages :: "jstring \<Rightarrow> jstring list" where
  "splitMessages content = split_loop (str_split (10::code_unit) content) [] []"

definition parseHL7Date :: "jstring \<Rightarrow> jstring" where
  "parseHL7Date hl7Date =
     (if 8 \<le> length hl7Date
      then take 4 hl7Date @ js ''-'' @ take 2 (drop 4 hl7Date) @ js ''-'' @ take 2 (drop 6 hl7Date)
      else hl7Date)"

text \<open>The decimal digits of a natural number, as a template literal prints an integer.\<close>

fun decimal :: "nat \<Rightarrow> jstring" where
  "decimal n =
     (if n < 10 then [(js ''0123456789'') ! n]
      else decimal (n div 10) @ [(js ''0123456789'') ! (n mod 10)])"

declare decimal.simps [simp del]

text \<open>
  \<open>extractPatientFromPID\<close>; \<open>nowMs\<close> is the value of \<open>Date.now()\<close>. Nothing in the body
  throws, so the \<open>catch\<close> branch that returns \<open>null\<close> is never taken.
\<close>

definition extractPatientFromPID :: "nat \<Rightarrow> HL7Segment \<Rightarrow> PatientData option" where
  "extractPatientFromPID nowMs pid =
     (let idField = at_or (seg_fields pid) 2 [];
          pid_id = at_or (str_split (cu CHR ''^'') idField) 0 (js ''HL7-'' @ decimal nowMs);
          nameField = at_or (seg_fields pid) 4 [];
          nameParts = str_split (cu CHR ''^'') nameField;
          last_n = at_or nameParts 0 (js ''Unknown'');
          first_n = at_or nameParts 1 (js ''Unknown'');
          birthDateRaw = at_or (seg_fields pid) 6 [];
          genderRaw = at_or (seg_fields pid) 7 [];
          addressField = at_or (seg_fields pid) 10 [];
          addressParts = str_split (cu CHR ''^'') addressField;
          phoneField = at_or (seg_fields pid) 12 []
      in Some \<lparr> patientId = pid_id,
                firstName = first_n,
                lastName = last_n,
                birthDate = parseHL7Date birthDateRaw,
                gender = normalizeGender_hl7 genderRaw,
                addressLine = at_opt addressParts 0,
                city = at_opt addressParts 2,
                state = at_opt addressParts 3,
                postalCode = at_opt addressParts 4,
                phone = at_opt (str_split (cu CHR ''^'') phoneField) 0,
                email = None \<rparr>)"

definition isAlphaNum :: "code_unit \<Rightarrow> bool" where
  "isAlphaNum c \<longleftrightarrow> c \<in> set (lowerLetters @ upperLetters @ js ''0123456789'')"

text \<open>\<open>loincCode.replace(/[^a-zA-Z0-9]/g, '_')\<close>, code unit by code unit.\<close>

definition sanitize :: "jstring \<Rightarrow> jstring" where
  "sanitize code = map (\<lambda>c. if isAlphaNum c then c else cu CHR ''_'') code"

text \<open>
  \<open>OBX_CODE_MAP[loincCode] || loincCode.replace(...)\<close>: the entry of the table, else the
  inherited member of that name, else the sanitised code.
\<close>

definition observationTypeOf :: "jstring \<Rightarrow> tag_value" where
  "observationTypeOf loincCode =
     (case map_of OBX_CODE_MAP loincCode of
        Some t \<Rightarrow> (if t \<noteq> [] then TypeTag t else TypeTag (sanitize loincCode))
      | None \<Rightarrow> (if loincCode \<in> set inheritedKeys then ObjectMember loincCode
                 else TypeTag (sanitize loincCode)))"

text \<open>
  \<open>extractObservationFromOBX\<close>; as above, the \<open>catch\<close> branch is never taken.
\<close>

definition extractObservationFromOBX ::
  "HL7Segment \<Rightarrow> jstring \<Rightarrow> jstring \<Rightarrow> tag_value ObservationData option"
where
  "extractObservationFromOBX obx pid_id mshTimestamp =
     (let identifierField = at_or (seg_fields obx) 2 [];
          loincCode = at_or (str_split (cu CHR ''^'') identifierField) 0 [];
          valueRaw = at_or (seg_fields obx) 4 [];
          unitsField = at_or (seg_fields obx) 5 [];
          dateField = at_or (seg_fields obx) 13 mshTimestamp
      in Some \<lparr> obs_patientId = pid_id,
                observationType = observationTypeOf loincCode,
                observationValue = coerceValue valueRaw,
                observationUnit = at_or (str_split (cu CHR ''^'') unitsField) 0 [],
                observationDate = parseHL7Date dateField \<rparr>)"

text \<open>
  The two readings of the clock that handling one message may take: \<open>Date.now()\<close> and
  \<open>new Date().toISOString()\<close>.
\<close>

record clock_reading =
  nowMs :: nat
  nowIso :: jstring

text \<open>\<open>isoText.replace(/[-:]/g, '').split('.')[0]\<close>.\<close>

definition compactIso :: "jstring \<Rightarrow> jstring" where
  "compactIso isoText =
     (case str_split (cu CHR ''.'') (filter (\<lambda>c. c \<noteq> cu CHR ''-'' \<and> c \<noteq> cu CHR '':'') isoText) of
        p # _ \<Rightarrow> p
      | [] \<Rightarrow> [])"

text \<open>The loop over the result segments of one message.\<close>

fun obx_loop ::
  "HL7Segment list \<Rightarrow> jstring \<Rightarrow> jstring \<Rightarrow> tag_value ObservationData list
     \<Rightarrow> tag_value ObservationData list"
where
  "obx_loop [] pid_id ts acc = acc"
| "obx_loop (obx # rest) pid_id ts acc =
     (case extractObservationFromOBX obx pid_id ts of
        Some observation \<Rightarrow> obx_loop rest pid_id ts (acc @ [observation])
      | None \<Rightarrow> obx_loop rest pid_id ts acc)"

text \<open>The body of the loop of \<open>parseHL7v2\<close> over the messages.\<close>

definition processMessage ::
  "clock_reading \<Rightarrow> tag_value parse_state \<Rightarrow> jstring \<Rightarrow> tag_value parse_state"
where
  "processMessage now st msgContent =
     (let message = parseHL7Message msgContent;
          mshTimestamp =
            (case find (\<lambda>s. seg_type s = js ''MSH'') message of
               Some msh \<Rightarrow> at_or (seg_fields msh) 5 (compactIso (nowIso now))
             | None \<Rightarrow> compactIso (nowIso now))
      in case find (\<lambda>s. seg_type s = js ''PID'') message of
           None \<Rightarrow> st
         | Some pidSegment \<Rightarrow>
             (case extractPatientFromPID (nowMs now) pidSegment of
                None \<Rightarrow> st
              | Some patient \<Rightarrow>
                  (let st1 = (if \<not> map_has (patientsMap st) (patientId patient)
                              then st \<lparr> patientsMap :=
                                     map_set (patientsMap st) (patientId patient) patient \<rparr>
                              else st)
                   in st1 \<lparr> collected :=
                        obx_loop (filter (\<lambda>s. seg_type s = js ''OBX'') message)
                          (patientId patient) mshTimestamp (collected st1) \<rparr>)))"

text \<open>The loop over the messages, each with the clock reading taken while it is handled.\<close>

fun message_loop ::
  "(jstring \<times> clock_reading) list \<Rightarrow> tag_value parse_state \<Rightarrow> tag_value parse_state"
where
  "message_loop [] st = st"
| "message_loop ((msgContent, now) # rest) st = message_loop rest (processMessage now st msgContent)"

definition parseMessages :: "(jstring \<times> clock_reading) list \<Rightarrow> tag_value ParsedData" where
  "parseMessages timed = finish (message_loop timed initial_state)"

text \<open>\<open>parseHL7v2\<close>; \<open>clock i\<close> is the reading of the clock while message \<open>i\<close> is handled.\<close>

definition parseHL7v2 :: "(nat \<Rightarrow> clock_reading) \<Rightarrow> jstring \<Rightarrow> tag_value ParsedData" where
  "parseHL7v2 clock content =
     (let messageStrings = splitMessages content
      in parseMessages (zip messageStrings (map clock [0 ..< length messageStrings])))"

section \<open>The resource mapper and bundle builder (fhir-mapper.ts)\<close>

record Identifier =
  id_system :: jstring
  id_value :: jstring

record HumanName =
  name_use :: jstring
  family :: jstring
  given :: "jstring list"

record ContactPoint =
  cp_system :: jstring
  cp_value :: jstring
  cp_use :: "jstring option"

record Address =
  addr_use :: jstring
  addr_line :: "jstring list option"
  addr_city :: "jstring option"
  addr_state :: "jstring option"
  addr_postalCode :: "jstring option"
  country :: jstring

record FHIRPatient =
  p_identifier :: "Identifier list"
  p_name :: "HumanName list"
  p_gender :: gender
  p_birthDate :: jstring
  telecom :: "ContactPoint list option"
  address :: "Address list option"

record Coding =
  c_system :: jstring
  c_code :: "jstring option"
  c_display :: "jstring option"

record CodeableConcept =
  coding :: "Coding list option"
  code_text :: jstring

record Quantity =
  q_value :: js_number
  q_unit :: jstring
  q_system :: jstring
  q_code :: jstring

record FHIRObservation =
  o_identifier :: "Identifier list"
  o_status :: jstring
  o_code :: CodeableConcept
  subject_reference :: jstring
  effectiveDateTime :: jstring
  valueQuantity :: "Quantity option"
  valueString :: "jstring option"

text \<open>The \<open>resourceType\<close> of a resource is its constructor.\<close>

datatype FHIRResource = PatientResource FHIRPatient | ObservationResource FHIRObservation

record entry_request =
  http_method :: jstring
  url :: jstring
  ifNoneExist :: jstring

record bundle_entry =
  fullUrl :: jstring
  resource :: FHIRResource
  request :: entry_request

record FHIRBundle =
  bundle_type :: jstring
  entry :: "bundle_entry list"

definition FHIR_IDENTIFIER_SYSTEM :: jstring where
  "FHIR_IDENTIFIER_SYSTEM = js ''urn:fhir-pipeline:patient-id''"

definition FHIR_OBSERVATION_IDENTIFIER_SYSTEM :: jstring where
  "FHIR_OBSERVATION_IDENTIFIER_SYSTEM = js ''urn:fhir-pipeline:observation-id''"

text \<open>\<open>LOINC_CODES\<close> (types.ts): type tag to code and display text.\<close>

definition LOINC_CODES :: "(jstring \<times> jstring \<times> jstring) list" where
  "LOINC_CODES =
     [(js ''blood_pressure_systolic'', js ''8480-6'', js ''Systolic blood pressure''),
      (js ''blood_pressure_diastolic'', js ''8462-4'', js ''Diastolic blood pressure''),
      (js ''heart_rate'', js ''8867-4'', js ''Heart rate''),
      (js ''body_temperature'', js ''8310-5'', js ''Body temperature''),
      (js ''blood_glucose'', js ''2339-0'', js ''Glucose [Mass/volume] in Blood''),
      (js ''body_weight'', js ''29463-7'', js ''Body weight''),
      (js ''oxygen_saturation'', js ''2708-6'', js ''Oxygen saturation in Arterial blood'')]"

text \<open>
  \<open>LOINC_CODES[tag]\<close>: the entry of the table or, for the name of an inherited member,
  that member, a truthy value with neither a \<open>code\<close> nor a \<open>display\<close>.
\<close>

definition loincInfo :: "jstring \<Rightarrow> (jstring option \<times> jstring option) option" where
  "loincInfo tag =
     (case map_of LOINC_CODES tag of
        Some (c, d) \<Rightarrow> Some (Some c, Some d)
      | None \<Rightarrow> (if tag \<in> set inheritedKeys then Some (None, None) else None))"

definition mapPatientToFHIR :: "PatientData \<Rightarrow> FHIRPatient" where
  "mapPatientToFHIR patient =
     (let telecom0 =
            (if truthy (phone patient)
             then [\<lparr> cp_system = js ''phone'', cp_value = or_else (phone patient) [],
                     cp_use = Some (js ''home'') \<rparr>]
             else []);
          telecom1 =
            (if truthy (email patient)
             then telecom0 @ [\<lparr> cp_system = js ''email'', cp_value = or_else (email patient) [],
                               cp_use = None \<rparr>]
             else telecom0)
      in \<lparr> p_identifier = [\<lparr> id_system = FHIR_IDENTIFIER_SYSTEM, id_value = patientId patient \<rparr>],
           p_name = [\<lparr> name_use = js ''official'', family = lastName patient,
                       given = [firstName patient] \<rparr>],
           p_gender = gender patient,
           p_birthDate = birthDate patient,
           telecom = (if 0 < length telecom1 then Some telecom1 else None),
           address =
             (if truthy (addressLine patient) \<or> truthy (city patient)
                 \<or> truthy (state patient) \<or> truthy (postalCode patient)
              then Some [\<lparr> addr_use = js ''home'',
                            addr_line = (if truthy (addressLine patient)
                                         then Some [or_else (addressLine patient) []]
                                         else None),
                            addr_city = city patient,
                            addr_state = state patient,
                            addr_postalCode = postalCode patient,
                            country = js ''US'' \<rparr>]
              else None) \<rparr>)"

text \<open>
  \<open>String(observation.observationValue)\<close>: a string is itself; how a number prints is the
  parameter \<open>numberToString\<close>.
\<close>

definition valueToString :: "(js_number \<Rightarrow> jstring) \<Rightarrow> obs_value \<Rightarrow> jstring" where
  "valueToString numberToString v =
     (case v of NumberValue n \<Rightarrow> numberToString n | StringValue t \<Rightarrow> t)"

definition generateObservationId ::
  "(js_number \<Rightarrow> jstring) \<Rightarrow> jstring ObservationData \<Rightarrow> jstring"
where
  "generateObservationId numberToString observation =
     str_join (cu CHR '':'')
       [obs_patientId observation,
        observationType observation,
        observationDate observation,
        valueToString numberToString (observationValue observation)]"

definition mapObservationToFHIR ::
  "(js_number \<Rightarrow> jstring) \<Rightarrow> jstring ObservationData \<Rightarrow> jstring \<Rightarrow> FHIRObservation"
where
  "mapObservationToFHIR numberToString observation patientReference =
     (let observationId = generateObservationId numberToString observation;
          base =
            \<lparr> o_identifier = [\<lparr> id_system = FHIR_OBSERVATION_IDENTIFIER_SYSTEM,
                                id_value = observationId \<rparr>],
              o_status = js ''final'',
              o_code =
                \<lparr> coding =
                    (case loincInfo (observationType observation) of
                       Some (c, d) \<Rightarrow>
                         Some [\<lparr> c_system = js ''http://loinc.org'', c_code = c, c_display = d \<rparr>]
                     | None \<Rightarrow> None),
                  code_text =
                    map (\<lambda>c. if c = cu CHR ''_'' then cu CHR '' '' else c) (observationType observation) \<rparr>,
              subject_reference = patientReference,
              effectiveDateTime = observationDate observation,
              valueQuantity = None,
              valueString = None \<rparr>
      in case observationValue observation of
           NumberValue n \<Rightarrow>
             base \<lparr> valueQuantity :=
                      Some \<lparr> q_value = n, q_unit = observationUnit observation,
                             q_system = js ''http://unitsofmeasure.org'',
                             q_code = observationUnit observation \<rparr> \<rparr>
         | StringValue t \<Rightarrow> base \<lparr> valueString := Some t \<rparr>)"

text \<open>
  The state of \<open>createFHIRBundle\<close>: the entries pushed so far, the map \<open>patientUUIDs\<close>, and
  how often \<open>uuidv4()\<close> has been called. The generator is the parameter \<open>uuidv4\<close>: its
  \<open>i\<close>-th call returns \<open>uuidv4 i\<close>.
\<close>

record bundle_state =
  entries :: "bundle_entry list"
  patientUUIDs :: "jstring js_map"
  calls :: nat

definition addPatient :: "(nat \<Rightarrow> jstring) \<Rightarrow> bundle_state \<Rightarrow> PatientData \<Rightarrow> bundle_state" where
  "addPatient uuidv4 bs patient =
     (let uuid = uuidv4 (calls bs)
      in \<lparr> entries = entries bs @
             [\<lparr> fullUrl = js ''urn:uuid:'' @ uuid,
                resource = PatientResource (mapPatientToFHIR patient),
                request = \<lparr> http_method = js ''POST'', url = js ''Patient'',
                            ifNoneExist = js ''identifier='' @ FHIR_IDENTIFIER_SYSTEM @ js ''|''
                                            @ patientId patient \<rparr> \<rparr>],
           patientUUIDs = map_set (patientUUIDs bs) (patientId patient) uuid,
           calls = Suc (calls bs) \<rparr>)"

text \<open>\<open>if (!patientUUID) continue\<close> skips on a missing entry and on the empty string.\<close>

definition addObservation ::
  "(js_number \<Rightarrow> jstring) \<Rightarrow> (nat \<Rightarrow> jstring) \<Rightarrow> bundle_state \<Rightarrow> jstring ObservationData
     \<Rightarrow> bundle_state"
where
  "addObservation numberToString uuidv4 bs observation =
     (case map_get (patientUUIDs bs) (obs_patientId observation) of
        None \<Rightarrow> bs
      | Some patientUUID \<Rightarrow>
          (if patientUUID = [] then bs
           else bs \<lparr> entries := entries bs @
                  [\<lparr> fullUrl = js ''urn:uuid:'' @ uuidv4 (calls bs),
                     resource = ObservationResource
                       (mapObservationToFHIR numberToString observation
                          (js ''urn:uuid:'' @ patientUUID)),
                     request = \<lparr> http_method = js ''POST'', url = js ''Observation'',
                                 ifNoneExist =
                                   js ''identifier='' @ FHIR_OBSERVATION_IDENTIFIER_SYSTEM @ js ''|''
                                     @ generateObservationId numberToString observation \<rparr> \<rparr>],
                  calls := Suc (calls bs) \<rparr>))"

definition createFHIRBundle ::
  "(js_number \<Rightarrow> jstring) \<Rightarrow> (nat \<Rightarrow> jstring) \<Rightarrow> jstring ParsedData \<Rightarrow> FHIRBundle"
where
  "createFHIRBundle numberToString uuidv4 data =
     (let afterPatients =
            foldl (addPatient uuidv4) \<lparr> entries = [], patientUUIDs = [], calls = 0 \<rparr>
              (patients data);
          afterObservations =
            foldl (addObservation numberToString uuidv4) afterPatients (observations data)
      in \<lparr> bundle_type = js ''transaction'', entry = entries afterObservations \<rparr>)"

section \<open>Notions used to state the properties\<close>


text \<open>
  The patient that one message of a segmented input yields under its clock reading:
  none without a patient-identity segment, otherwise what \<open>extractPatientFromPID\<close> returns
  for the first such segment.
\<close>

definition messagePatient :: "jstring \<times> clock_reading \<Rightarrow> PatientData option" where
  "messagePatient timed =
     (case find (\<lambda>s. seg_type s = js ''PID'') (parseHL7Message (fst timed)) of
        None \<Rightarrow> None
      | Some pidSegment \<Rightarrow> extractPatientFromPID (nowMs (snd timed)) pidSegment)"



text \<open>
  The time stamp that the observations of a message fall back to: the seventh field of
  its header segment and, without one, the compacted clock reading.
\<close>

definition messageTimestamp :: "jstring \<times> clock_reading \<Rightarrow> jstring" where
  "messageTimestamp timed =
     (case find (\<lambda>s. seg_type s = js ''MSH'') (parseHL7Message (fst timed)) of
        Some msh \<Rightarrow> at_or (seg_fields msh) 5 (compactIso (nowIso (snd timed)))
      | None \<Rightarrow> compactIso (nowIso (snd timed)))"

text \<open>
  The observations that one message of a segmented input yields under its clock
  reading: none without a patient, otherwise one for each of its result segments, in
  their order, owned by the identifier of the message's patient.
\<close>

definition messageObservations ::
  "jstring \<times> clock_reading \<Rightarrow> tag_value ObservationData list"
where
  "messageObservations timed =
     (case messagePatient timed of
        None \<Rightarrow> []
      | Some patient \<Rightarrow>
          List.map_filter
            (\<lambda>obx. extractObservationFromOBX obx (patientId patient) (messageTimestamp timed))
            (filter (\<lambda>s. seg_type s = js ''OBX'') (parseHL7Message (fst timed))))"

text \<open>
  A string spells a word when it is the word, each letter in either case, with any
  white space in front of it and behind it. The word is given in lower and in upper
  case.
\<close>

definition spells :: "jstring \<Rightarrow> jstring \<Rightarrow> jstring \<Rightarrow> bool" where
  "spells g lowerWord upperWord \<longleftrightarrow>
     (\<exists>before core after.
        g = before @ core @ after
        \<and> list_all isWhiteSpace before \<and> list_all isWhiteSpace after
        \<and> list_all2 (\<lambda>c (l, u). c = l \<or> c = u) core (zip lowerWord upperWord))"

text \<open>
  The test that lets an observation into the bundle: \<open>patientUUIDs\<close> holds a non-empty
  string for its patient identifier.
\<close>

definition hasPatientUUID :: "bundle_state \<Rightarrow> jstring ObservationData \<Rightarrow> bool" where
  "hasPatientUUID bs ob =
     (case map_get (patientUUIDs bs) (obs_patientId ob) of
        None \<Rightarrow> False
      | Some u \<Rightarrow> u \<noteq> [])"

text \<open>
  The bundle scenario of the specification: two patients and three observations, the
  last of which names a patient that is not in the list.
\<close>

definition scenario_patient :: "jstring \<Rightarrow> PatientData" where
  "scenario_patient ident =
     \<lparr> patientId = ident, firstName = js ''John'', lastName = js ''Doe'', birthDate = js ''1990-01-15'',
       gender = male, addressLine = None, city = None, state = None, postalCode = None,
       phone = None, email = None \<rparr>"

definition scenario_observation :: "jstring \<Rightarrow> obs_value \<Rightarrow> jstring ObservationData" where
  "scenario_observation ident v =
     \<lparr> obs_patientId = ident, observationType = js ''heart_rate'', observationValue = v,
       observationUnit = js ''bpm'', observationDate = js ''2024-01-15'' \<rparr>"

definition scenario_data :: "jstring ParsedData" where
  "scenario_data =
     \<lparr> patients = [scenario_patient (js ''P001''), scenario_patient (js ''P002'')],
       observations =
         [scenario_observation (js ''P001'') (NumberValue (Finite 72)),
          scenario_observation (js ''P002'') (StringValue (js ''high'')),
          scenario_observation (js ''P999'') (NumberValue (Finite 80))] \<rparr>"

text \<open>Two generators of identities for the scenario, with no value in common.\<close>

definition scenario_uuid :: "code_unit \<Rightarrow> nat \<Rightarrow> jstring" where
  "scenario_uuid c i = replicate (Suc i) c"


section \<open>Properties of the string helpers\<close>

lemma js_append: "js a @ js b = js (a @ b)"
  by (simp add: js_def)

lemma js_inject: "js a = js b \<longleftrightarrow> a = b"
  by (simp add: js_def inj_on_def)

lemma toUpperChar_toLowerChar: "toUpperChar (toLowerChar c) = toUpperChar c"
  by (simp add: toUpperChar_def toLowerChar_def upperLetters_def lowerLetters_def js_def)

lemma toLowerChar_toUpperChar: "toLowerChar (toUpperChar c) = toLowerChar c"
  by (simp add: toUpperChar_def toLowerChar_def upperLetters_def lowerLetters_def js_def)

lemma isWhiteSpace_toUpperChar: "isWhiteSpace (toUpperChar c) = isWhiteSpace c"
  by (simp add: toUpperChar_def isWhiteSpace_def upperLetters_def lowerLetters_def js_def)

lemma isWhiteSpace_toLowerChar: "isWhiteSpace (toLowerChar c) = isWhiteSpace c"
  by (simp add: toLowerChar_def isWhiteSpace_def upperLetters_def lowerLetters_def js_def)

lemma dropWhile_map_invariant:
  "(\<And>c. P (f c) = P c) \<Longrightarrow> dropWhile P (map f s) = map f (dropWhile P s)"
  by (induction s) auto

lemma trim_toUpperCase: "trim (toUpperCase s) = toUpperCase (trim s)"
  by (simp add: trim_def toUpperCase_def dropWhile_map_invariant isWhiteSpace_toUpperChar
      rev_map)

lemma trim_toLowerCase: "trim (toLowerCase s) = toLowerCase (trim s)"
  by (simp add: trim_def toLowerCase_def dropWhile_map_invariant isWhiteSpace_toLowerChar
      rev_map)

lemma toLowerCase_toUpperCase: "toLowerCase (toUpperCase s) = toLowerCase s"
  by (simp add: toLowerCase_def toUpperCase_def toLowerChar_toUpperChar)

lemma toUpperCase_toLowerCase: "toUpperCase (toLowerCase s) = toUpperCase s"
  by (simp add: toLowerCase_def toUpperCase_def toUpperChar_toLowerChar)

text \<open>
  Comparing the upper-cased input with an upper-case word is comparing the lower-cased
  input with the lower-case word.
\<close>

lemma upper_word_iff:
  assumes "toLowerCase W = w" and "toUpperCase w = W"
  shows "trim (toUpperCase g) = W \<longleftrightarrow> trim (toLowerCase g) = w"
proof
  assume "trim (toUpperCase g) = W"
  then have "toLowerCase (trim (toUpperCase g)) = w" using assms by simp
  then show "trim (toLowerCase g) = w"
    by (simp add: trim_toLowerCase [symmetric] toLowerCase_toUpperCase)
next
  assume "trim (toLowerCase g) = w"
  then have "toUpperCase (trim (toLowerCase g)) = W" using assms by simp
  then show "trim (toUpperCase g) = W"
    by (simp add: trim_toUpperCase [symmetric] toUpperCase_toLowerCase)
qed

lemma lower_words:
  "toLowerCase (js ''M'') = js ''m''" "toLowerCase (js ''MALE'') = js ''male''"
  "toLowerCase (js ''F'') = js ''f''" "toLowerCase (js ''FEMALE'') = js ''female''"
  "toLowerCase (js ''O'') = js ''o''" "toLowerCase (js ''OTHER'') = js ''other''"
  by (simp_all add: toLowerCase_def toLowerChar_def upperLetters_def lowerLetters_def js_def)

lemma upper_words:
  "toUpperCase (js ''m'') = js ''M''" "toUpperCase (js ''male'') = js ''MALE''"
  "toUpperCase (js ''f'') = js ''F''" "toUpperCase (js ''female'') = js ''FEMALE''"
  "toUpperCase (js ''o'') = js ''O''" "toUpperCase (js ''other'') = js ''OTHER''"
  by (simp_all add: toUpperCase_def toUpperChar_def upperLetters_def lowerLetters_def js_def)

section \<open>Claim C1: success and failure counts of the dispatcher\<close>

text \<open>
  C1 as stated fails: a reply whose status begins with \<open>2\<close> but not with \<open>20\<close> is counted
  as a failure. For the one-entry response with status \<open>226 IM Used\<close> the dispatcher reports
  no success and one failure.
\<close>

theorem successCount_226_not_counted:
  "startsWith (js ''226 IM Used'') (js ''2'')
   \<and> successCount \<lparr> reply_entries =
         Some [\<lparr> response = Some \<lparr> status = Some (js ''226 IM Used''), location = None \<rparr> \<rparr>] \<rparr> = 0
   \<and> errorCount \<lparr> reply_entries =
         Some [\<lparr> response = Some \<lparr> status = Some (js ''226 IM Used''), location = None \<rparr> \<rparr>] \<rparr> = 1"
  by (simp add: successCount_def errorCount_def isSuccess_def startsWith_def js_def)

text \<open>
  C1, amended: for every response bundle, the reported success count is the number of
  reply entries that carry a status whose first two characters are \<open>20\<close>, and the failure
  count is the number of all remaining entries (other statuses, and entries without a
  response or without a status); a response without an entry list gives zero for both.
\<close>

theorem successCount_counts_20_prefix:
  "successCount result =
     length (filter (\<lambda>e. \<exists>r s. response e = Some r \<and> status r = Some s \<and> take 2 s = js ''20'')
               (case reply_entries result of None \<Rightarrow> [] | Some es \<Rightarrow> es))
   \<and> errorCount result =
     int (length (filter (\<lambda>e. \<not> (\<exists>r s. response e = Some r \<and> status r = Some s
                                        \<and> take 2 s = js ''20''))
               (case reply_entries result of None \<Rightarrow> [] | Some es \<Rightarrow> es)))"
proof -
  have P: "(\<exists>r s. response e = Some r \<and> status r = Some s \<and> take 2 s = js ''20'') = isSuccess e"
    for e
    by (auto simp: isSuccess_def startsWith_def js_def numeral_2_eq_2 split: option.splits)
  have len: "int (length (es :: reply_entry list)) - int (length (filter isSuccess es))
      = int (length (filter (\<lambda>e. \<not> isSuccess e) es))" for es
    using sum_length_filter_compl [of isSuccess es] by simp
  show ?thesis
    unfolding P
    by (cases "reply_entries result") (simp_all add: successCount_def errorCount_def len)
qed

section \<open>Claim C7: sex normalization\<close>

text \<open>What \<open>trim\<close> removes, and when it leaves a core between white space alone.\<close>

lemma dropWhile_decompose:
  "\<exists>before. s = before @ dropWhile P s \<and> list_all P before"
proof -
  have "s = takeWhile P s @ dropWhile P s" by simp
  moreover have "list_all P (takeWhile P s)"
    by (simp add: list_all_iff) (meson set_takeWhileD)
  ultimately show ?thesis by blast
qed

lemma trim_decompose:
  "\<exists>before after. s = before @ trim s @ after
     \<and> list_all isWhiteSpace before \<and> list_all isWhiteSpace after"
proof -
  obtain before where b: "s = before @ dropWhile isWhiteSpace s" "list_all isWhiteSpace before"
    using dropWhile_decompose [of s isWhiteSpace] by blast
  let ?r = "rev (dropWhile isWhiteSpace s)"
  obtain behind where k: "?r = behind @ dropWhile isWhiteSpace ?r" "list_all isWhiteSpace behind"
    using dropWhile_decompose [of ?r isWhiteSpace] by blast
  from k(1) have "rev ?r = rev (behind @ dropWhile isWhiteSpace ?r)" by simp
  then have "dropWhile isWhiteSpace s = trim s @ rev behind" by (simp add: trim_def)
  with b(1) have "s = before @ trim s @ rev behind" by simp
  moreover have "list_all isWhiteSpace (rev behind)" using k(2) by (simp add: list_all_iff)
  ultimately show ?thesis using b(2) by blast
qed

lemma dropWhile_core:
  assumes "list_all P before" and "core \<noteq> []" and "\<not> P (hd core)"
  shows "dropWhile P (before @ core @ after) = core @ after"
proof -
  have "dropWhile P (before @ core @ after) = dropWhile P (core @ after)"
    using assms(1) by (induction before) simp_all
  also have "\<dots> = core @ after" using assms(2,3) by (cases core) simp_all
  finally show ?thesis .
qed

lemma trim_core:
  assumes "list_all isWhiteSpace before" and "list_all isWhiteSpace after"
    and "core \<noteq> []" and "\<not> isWhiteSpace (hd core)" and "\<not> isWhiteSpace (last core)"
  shows "trim (before @ core @ after) = core"
proof -
  have ahead: "dropWhile isWhiteSpace (before @ core @ after) = core @ after"
    using assms(1,3,4) by (rule dropWhile_core)
  have "dropWhile isWhiteSpace (rev after @ rev core @ []) = rev core @ []"
  proof (rule dropWhile_core)
    show "list_all isWhiteSpace (rev after)" using assms(2) by (simp add: list_all_iff)
    show "rev core \<noteq> []" using assms(3) by simp
    show "\<not> isWhiteSpace (hd (rev core))" using assms(3,5) by (simp add: hd_rev)
  qed
  then have "dropWhile isWhiteSpace (rev (core @ after)) = rev core" by simp
  then show ?thesis by (simp add: trim_def ahead)
qed

text \<open>
  Lower-casing gives a lower-case letter exactly for that letter in either case.
\<close>

lemma upperLetters_range: "c \<in> set upperLetters \<longleftrightarrow> 65 \<le> c \<and> c \<le> 90"
  unfolding upperLetters_def js_def by (simp, arith)

lemma lowerLetters_range: "c \<in> set lowerLetters \<longleftrightarrow> 97 \<le> c \<and> c \<le> 122"
  unfolding lowerLetters_def js_def by (simp, arith)

lemma toLowerChar_cases:
  "toLowerChar c = (if c \<in> set upperLetters then c + 32 else c)"
  by (simp add: toLowerChar_def upperLetters_def lowerLetters_def js_def)

lemma toUpperChar_cases:
  "toUpperChar c = (if c \<in> set lowerLetters then c - 32 else c)"
  by (simp add: toUpperChar_def upperLetters_def lowerLetters_def js_def)

lemma toLowerChar_eq_iff:
  assumes "l \<in> set lowerLetters"
  shows "toLowerChar c = l \<longleftrightarrow> c = l \<or> c = toUpperChar l"
  using assms unfolding toLowerChar_cases toUpperChar_cases upperLetters_range lowerLetters_range
  by auto

lemma toLowerCase_eq_iff:
  assumes "list_all2 (\<lambda>l u. l \<in> set lowerLetters \<and> u = toUpperChar l) lowerWord upperWord"
  shows "toLowerCase core = lowerWord
           \<longleftrightarrow> list_all2 (\<lambda>c (l, u). c = l \<or> c = u) core (zip lowerWord upperWord)"
  using assms
proof (induction lowerWord upperWord arbitrary: core rule: list_all2_induct)
  case Nil
  show ?case by (simp add: toLowerCase_def)
next
  case (Cons l ls u us)
  show ?case
  proof (cases core)
    case Nil
    then show ?thesis by (simp add: toLowerCase_def)
  next
    case (Cons c cs)
    have "toLowerCase cs = ls
            \<longleftrightarrow> list_all2 (\<lambda>c (l, u). c = l \<or> c = u) cs (zip ls us)"
      by (rule Cons.IH)
    moreover have "toLowerChar c = l \<longleftrightarrow> c = l \<or> c = u"
      using Cons.hyps(1) by (simp add: toLowerChar_eq_iff)
    ultimately show ?thesis using Cons by (simp add: toLowerCase_def)
  qed
qed

lemma trim_toLowerCase_spells:
  assumes pairs: "list_all2 (\<lambda>l u. l \<in> set lowerLetters \<and> u = toUpperChar l) lowerWord upperWord"
    and nonempty: "lowerWord \<noteq> []"
    and ahead: "\<not> isWhiteSpace (hd lowerWord)"
    and behind: "\<not> isWhiteSpace (last lowerWord)"
  shows "trim (toLowerCase g) = lowerWord \<longleftrightarrow> spells g lowerWord upperWord"
proof
  assume eq: "trim (toLowerCase g) = lowerWord"
  obtain before after where g: "g = before @ trim g @ after"
    and ws: "list_all isWhiteSpace before" "list_all isWhiteSpace after"
    using trim_decompose [of g] by blast
  have "toLowerCase (trim g) = lowerWord" using eq by (simp add: trim_toLowerCase)
  then have "list_all2 (\<lambda>c (l, u). c = l \<or> c = u) (trim g) (zip lowerWord upperWord)"
    by (simp add: toLowerCase_eq_iff [OF pairs])
  with g ws show "spells g lowerWord upperWord" unfolding spells_def by blast
next
  assume "spells g lowerWord upperWord"
  then obtain before core after where g: "g = before @ core @ after"
    and ws: "list_all isWhiteSpace before" "list_all isWhiteSpace after"
    and core: "list_all2 (\<lambda>c (l, u). c = l \<or> c = u) core (zip lowerWord upperWord)"
    unfolding spells_def by blast
  have low: "toLowerCase core = lowerWord" using core by (simp add: toLowerCase_eq_iff [OF pairs])
  have "toLowerCase g = toLowerCase before @ lowerWord @ toLowerCase after"
    using g low by (simp add: toLowerCase_def)
  moreover have "list_all isWhiteSpace (toLowerCase before)"
    using ws(1) by (simp add: toLowerCase_def list_all_iff isWhiteSpace_toLowerChar)
  moreover have "list_all isWhiteSpace (toLowerCase after)"
    using ws(2) by (simp add: toLowerCase_def list_all_iff isWhiteSpace_toLowerChar)
  ultimately show "trim (toLowerCase g) = lowerWord"
    using nonempty ahead behind by (simp add: trim_core)
qed

lemma normalized_word_iff:
  "trim (toLowerCase g) = js ''m'' \<longleftrightarrow> spells g (js ''m'') (js ''M'')"
  "trim (toLowerCase g) = js ''male'' \<longleftrightarrow> spells g (js ''male'') (js ''MALE'')"
  "trim (toLowerCase g) = js ''f'' \<longleftrightarrow> spells g (js ''f'') (js ''F'')"
  "trim (toLowerCase g) = js ''female'' \<longleftrightarrow> spells g (js ''female'') (js ''FEMALE'')"
  "trim (toLowerCase g) = js ''o'' \<longleftrightarrow> spells g (js ''o'') (js ''O'')"
  "trim (toLowerCase g) = js ''other'' \<longleftrightarrow> spells g (js ''other'') (js ''OTHER'')"
  by (rule trim_toLowerCase_spells;
      simp add: js_def isWhiteSpace_def lowerLetters_def upperLetters_def toUpperChar_def)+

lemma normalizeGender_hl7_csv: "normalizeGender_hl7 g = normalizeGender_csv g"
  unfolding normalizeGender_hl7_def normalizeGender_csv_def Let_def
  by (simp only: upper_word_iff [OF lower_words(1) upper_words(1)]
        upper_word_iff [OF lower_words(2) upper_words(2)]
        upper_word_iff [OF lower_words(3) upper_words(3)]
        upper_word_iff [OF lower_words(4) upper_words(4)]
        upper_word_iff [OF lower_words(5) upper_words(5)]
        upper_word_iff [OF lower_words(6) upper_words(6)]) auto

lemma normalized_words_distinct:
  "distinct [js ''m'', js ''male'', js ''f'', js ''female'', js ''o'', js ''other'']"
  by (simp add: js_def)

text \<open>
  C7 as stated fails: the normalization also ignores surrounding white space. The string
  \<open>" M"\<close> is none of the six words in any letter case, and both parsers map it to \<open>male\<close>,
  not to \<open>unknown\<close>.
\<close>

theorem normalizeGender_padded_input:
  "toLowerCase (js '' M'') \<notin> {js ''m'', js ''male'', js ''f'', js ''female'', js ''o'', js ''other''}
   \<and> normalizeGender_hl7 (js '' M'') = male \<and> normalizeGender_csv (js '' M'') = male"
  by (simp add: normalizeGender_hl7_def normalizeGender_csv_def trim_def isWhiteSpace_def
      toLowerCase_def toUpperCase_def toLowerChar_def toUpperChar_def lowerLetters_def
      upperLetters_def js_def)

text \<open>
  C7, amended: sex normalization is a total function, and both parsers compute the same
  one. A string that spells \<open>m\<close> or \<open>male\<close>, with each letter in either case and with any
  white space in ahead of it and behind it, maps to \<open>male\<close>, and no other string does;
  likewise \<open>f\<close> and \<open>female\<close> for \<open>female\<close>, and \<open>o\<close> and \<open>other\<close> for \<open>other\<close>; the
  strings that spell none of the six words, and only they, map to \<open>unknown\<close>.
\<close>

theorem normalizeGender_total:
  "(normalizeGender_csv g = male
      \<longleftrightarrow> spells g (js ''m'') (js ''M'') \<or> spells g (js ''male'') (js ''MALE''))
   \<and> (normalizeGender_csv g = female
      \<longleftrightarrow> spells g (js ''f'') (js ''F'') \<or> spells g (js ''female'') (js ''FEMALE''))
   \<and> (normalizeGender_csv g = other
      \<longleftrightarrow> spells g (js ''o'') (js ''O'') \<or> spells g (js ''other'') (js ''OTHER''))
   \<and> (normalizeGender_csv g = unknown
      \<longleftrightarrow> \<not> (spells g (js ''m'') (js ''M'') \<or> spells g (js ''male'') (js ''MALE'')
             \<or> spells g (js ''f'') (js ''F'') \<or> spells g (js ''female'') (js ''FEMALE'')
             \<or> spells g (js ''o'') (js ''O'') \<or> spells g (js ''other'') (js ''OTHER'')))
   \<and> normalizeGender_hl7 g = normalizeGender_csv g"
proof -
  have d: "js ''m'' \<noteq> js ''f''" "js ''m'' \<noteq> js ''female''" "js ''m'' \<noteq> js ''o''"
    "js ''m'' \<noteq> js ''other''" "js ''male'' \<noteq> js ''f''" "js ''male'' \<noteq> js ''female''"
    "js ''male'' \<noteq> js ''o''" "js ''male'' \<noteq> js ''other''" "js ''f'' \<noteq> js ''o''"
    "js ''f'' \<noteq> js ''other''" "js ''female'' \<noteq> js ''o''" "js ''female'' \<noteq> js ''other''"
    using normalized_words_distinct by simp_all
  show ?thesis
    unfolding normalized_word_iff [symmetric] normalizeGender_hl7_csv
    using d by (auto simp: normalizeGender_csv_def Let_def)
qed

section \<open>Properties of splitting, indexing and decimal printing\<close>



lemma at_or_absent: "length xs \<le> i \<or> xs ! i = [] \<Longrightarrow> at_or xs i d = d"
  by (auto simp: at_or_def)

lemma at_opt_not_empty: "at_opt xs i \<noteq> Some []"
  by (simp add: at_opt_def)

lemma at_opt_split_empty: "at_opt (str_split sep []) i = None"
  by (cases i) (simp_all add: at_opt_def)

lemma at_or_split_empty: "at_or (str_split sep []) i d = d"
  by (cases i) (simp_all add: at_or_def)

lemma parseHL7Date_empty: "parseHL7Date [] = []"
  by (simp add: parseHL7Date_def)








section \<open>Evaluating numbers\<close>

text \<open>Evaluating the rounding to a double.\<close>

lemma bitLength_zero: "bitLength 0 = 0"
  by (simp add: bitLength.simps)

lemma bitLength_positive: "0 < n \<Longrightarrow> bitLength n = Suc (bitLength (n div 2))"
  by (simp add: bitLength.simps [of n])

lemma nearestDouble_72: "nearestDouble 72 = Some 72"
  by (simp add: nearestDouble_def binaryExponent_def roundHalfEven_def pow2_def Let_def
      bitLength_zero bitLength_positive)



text \<open>
  Inputs outside ASCII: a no-break space around a numeral or a sex code is stripped, and
  a result code that names an inherited member yields that member.
\<close>

lemma Number_no_break_space: "Number (js ''72'' @ [0xA0]) = Some (Finite 72)"
  by (simp add: Number_def trim_def isWhiteSpace_def js_def cu_def nonDecimalLiteral_def
      takeSign_def unsignedDecimal_def isDigitOf_def digitValue_def digitsValue_def
      exponentPart_def scale10_def toNumber_def nearestDouble_72 upt_rec)

lemma normalizeGender_no_break_space: "normalizeGender_csv (js ''M'' @ [0xA0]) = male"
  by (simp add: normalizeGender_csv_def trim_def isWhiteSpace_def toLowerCase_def
      toLowerChar_def lowerLetters_def upperLetters_def js_def)

lemma observationTypeOf_inherited:
  "observationTypeOf (js ''constructor'') = ObjectMember (js ''constructor'')"
  by (simp add: observationTypeOf_def OBX_CODE_MAP_def inheritedKeys_def js_def)

section \<open>Claim C2: optional patient fields of the patient-identity segment\<close>

text \<open>
  C2 as stated fails: not every absent field is omitted. For a patient-identity segment
  that carries an identifier but no name and no birth date, the given and family name
  become the substitute \<open>Unknown\<close> and the birth date becomes the empty string; only the
  address parts and the phone are left out.
\<close>

theorem extractPatientFromPID_substitutes:
  "extractPatientFromPID 7 \<lparr> seg_type = js ''PID'', seg_fields = [js ''1'', [], js ''P001''] \<rparr> =
     Some \<lparr> patientId = js ''P001'', firstName = js ''Unknown'', lastName = js ''Unknown'',
            birthDate = [], gender = unknown, addressLine = None, city = None, state = None,
            postalCode = None, phone = None, email = None \<rparr>"
  by code_simp

text \<open>
  C2, amended: extraction from a patient-identity segment never fails, and an absent
  field (missing or empty) is handled per attribute. An absent address field leaves every
  address part omitted and an absent phone field leaves the phone omitted; the e-mail is
  always omitted, and no optional attribute is ever an empty string. An absent name field
  gives the substitute \<open>Unknown\<close> for both names, an absent birth date gives the empty
  string, and an absent identifier gives the synthetic identifier \<open>HL7-\<close> followed by the
  clock reading.
\<close>

theorem extractPatientFromPID_absent_fields:
  "\<exists>p. extractPatientFromPID now pid = Some p
     \<and> email p = None
     \<and> addressLine p \<noteq> Some [] \<and> city p \<noteq> Some [] \<and> state p \<noteq> Some []
     \<and> postalCode p \<noteq> Some [] \<and> phone p \<noteq> Some []
     \<and> (length (seg_fields pid) \<le> 10 \<or> seg_fields pid ! 10 = [] \<longrightarrow>
            addressLine p = None \<and> city p = None \<and> state p = None \<and> postalCode p = None)
     \<and> (length (seg_fields pid) \<le> 12 \<or> seg_fields pid ! 12 = [] \<longrightarrow> phone p = None)
     \<and> (length (seg_fields pid) \<le> 4 \<or> seg_fields pid ! 4 = [] \<longrightarrow>
            firstName p = js ''Unknown'' \<and> lastName p = js ''Unknown'')
     \<and> (length (seg_fields pid) \<le> 6 \<or> seg_fields pid ! 6 = [] \<longrightarrow> birthDate p = [])
     \<and> (length (seg_fields pid) \<le> 2 \<or> seg_fields pid ! 2 = [] \<longrightarrow>
            patientId p = js ''HL7-'' @ decimal now)"
  unfolding extractPatientFromPID_def Let_def
  by (simp add: at_opt_not_empty at_or_absent at_opt_split_empty at_or_split_empty
        parseHL7Date_empty del: str_split.simps)

theorem extractPatientFromPID_absent_fields_witness:
  "\<exists>p. extractPatientFromPID 7 \<lparr> seg_type = js ''PID'', seg_fields = [js ''1''] \<rparr> = Some p
     \<and> email p = None
     \<and> addressLine p = None \<and> city p = None \<and> state p = None \<and> postalCode p = None
     \<and> phone p = None
     \<and> firstName p = js ''Unknown'' \<and> lastName p = js ''Unknown''
     \<and> birthDate p = []
     \<and> patientId p = js ''HL7-'' @ decimal 7"
  using extractPatientFromPID_absent_fields [of 7 "\<lparr> seg_type = js ''PID'', seg_fields = [js ''1''] \<rparr>"]
  by auto

section \<open>First-seen registration\<close>
















section \<open>The loop over the messages\<close>





lemma obx_loop_map_filter:
  "obx_loop segs pid_id ts acc
     = acc @ List.map_filter (\<lambda>obx. extractObservationFromOBX obx pid_id ts) segs"
  by (induction segs arbitrary: acc) (simp_all split: option.splits)

lemma processMessage_collected:
  "collected (processMessage now st m) = collected st @ messageObservations (m, now)"
  by (simp add: processMessage_def messageObservations_def messagePatient_def
        messageTimestamp_def Let_def obx_loop_map_filter split: option.splits)

lemma message_loop_collected:
  "collected (message_loop timed st) = collected st @ concat (map messageObservations timed)"
proof (induction timed arbitrary: st)
  case Nil
  show ?case by simp
next
  case (Cons a timed)
  obtain m now where a: "a = (m, now)" by (cases a)
  show ?case
    using Cons.IH [of "processMessage now st m"] by (simp add: a processMessage_collected)
qed

lemma parseMessages_observations:
  "observations (parseMessages timed) = concat (map messageObservations timed)"
  by (simp add: parseMessages_def finish_def message_loop_collected initial_state_def)


section \<open>Claim C9: a message without a patient-identity segment\<close>



section \<open>Claim C10: the synthetic identifier\<close>







section \<open>The two loops of the bundle builder\<close>

lemma map_of_map_set: "map_of (map_set m k v) = (map_of m)(k \<mapsto> v)"
proof (cases "map_has m k")
  case True
  have "map_of (map (\<lambda>(k', v'). if k' = k then (k', v) else (k', v')) m) k'
      = (if k' = k then (if k \<in> set (map fst m) then Some v else None) else map_of m k')" for k'
    by (induction m) (auto simp: rev_image_eqI)
  then show ?thesis using True by (auto simp: map_set_def map_has_def fun_eq_iff)
next
  case False
  then have "map_of m k = None" by (simp add: map_has_def map_of_eq_None_iff)
  then show ?thesis using False
    by (auto simp: map_set_def fun_eq_iff map_add_def split: option.splits)
qed

lemma map_get_map_set: "map_get (map_set m k v) k' = (if k' = k then Some v else map_get m k')"
  by (simp add: map_get_def map_of_map_set)

text \<open>The first loop of the bundle builder.\<close>

lemma addPatient_calls: "calls (foldl (addPatient g) bs ps) = calls bs + length ps"
  by (induction ps arbitrary: bs) (simp_all add: addPatient_def Let_def)

lemma addPatient_resources:
  "map resource (entries (foldl (addPatient g) bs ps))
     = map resource (entries bs) @ map (\<lambda>p. PatientResource (mapPatientToFHIR p)) ps"
  by (induction ps arbitrary: bs) (simp_all add: addPatient_def Let_def)

lemma addPatient_directives:
  "map (\<lambda>e. ifNoneExist (request e)) (entries (foldl (addPatient g) bs ps))
     = map (\<lambda>e. ifNoneExist (request e)) (entries bs)
       @ map (\<lambda>p. js ''identifier='' @ FHIR_IDENTIFIER_SYSTEM @ js ''|'' @ patientId p) ps"
  by (induction ps arbitrary: bs) (simp_all add: addPatient_def Let_def)

lemma addPatient_length:
  "length (entries (foldl (addPatient g) bs ps)) = length (entries bs) + length ps"
  by (induction ps arbitrary: bs) (simp_all add: addPatient_def Let_def)

text \<open>A key has a usable entry when the map holds a non-empty string for it.\<close>

lemma addPatient_uuid_present:
  assumes "\<forall>i. g i \<noteq> []"
  shows "(\<exists>u. map_get (patientUUIDs (foldl (addPatient g) bs ps)) k = Some u \<and> u \<noteq> [])
     \<longleftrightarrow> (k \<in> set (map patientId ps)
          \<or> (\<exists>u. map_get (patientUUIDs bs) k = Some u \<and> u \<noteq> []))"
proof (induction ps arbitrary: bs)
  case Nil
  show ?case by simp
next
  case (Cons p ps)
  have step: "(\<exists>u. map_get (patientUUIDs (addPatient g bs p)) k = Some u \<and> u \<noteq> [])
      \<longleftrightarrow> (k = patientId p \<or> (\<exists>u. map_get (patientUUIDs bs) k = Some u \<and> u \<noteq> []))"
    using assms by (auto simp: addPatient_def Let_def map_get_map_set)
  show ?case using Cons.IH [of "addPatient g bs p"] step by auto
qed

lemma addPatient_missing:
  "k \<notin> set (map patientId ps) \<Longrightarrow>
     map_get (patientUUIDs (foldl (addPatient g) bs ps)) k = map_get (patientUUIDs bs) k"
  by (induction ps arbitrary: bs) (auto simp: addPatient_def Let_def map_get_map_set)

text \<open>The second loop.\<close>

lemma hasPatientUUID_iff:
  "hasPatientUUID bs ob \<longleftrightarrow>
     (\<exists>u. map_get (patientUUIDs bs) (obs_patientId ob) = Some u \<and> u \<noteq> [])"
  by (auto simp: hasPatientUUID_def split: option.splits)

lemma addObservation_uuids: "patientUUIDs (addObservation str g bs ob) = patientUUIDs bs"
  by (simp add: addObservation_def split: option.splits)

lemma hasPatientUUID_addObservation: "hasPatientUUID (addObservation str g bs ob) ob' = hasPatientUUID bs ob'"
  by (simp add: hasPatientUUID_iff addObservation_uuids)

lemma addObservation_skip: "\<not> hasPatientUUID bs ob \<Longrightarrow> addObservation str g bs ob = bs"
  by (auto simp: hasPatientUUID_iff addObservation_def split: option.splits)

lemma addObservation_loop_uuids:
  "patientUUIDs (foldl (addObservation str g) bs os) = patientUUIDs bs"
  by (induction os arbitrary: bs) (simp_all add: addObservation_uuids)

lemma addObservation_filter:
  "foldl (addObservation str g) bs (filter (hasPatientUUID bs) os) = foldl (addObservation str g) bs os"
proof (induction os arbitrary: bs)
  case Nil
  show ?case by simp
next
  case (Cons ob os)
  have same: "filter (hasPatientUUID (addObservation str g bs ob)) os = filter (hasPatientUUID bs) os"
    by (simp add: hasPatientUUID_addObservation cong: filter_cong)
  show ?case
  proof (cases "hasPatientUUID bs ob")
    case True
    then show ?thesis using Cons.IH [of "addObservation str g bs ob"] same by simp
  next
    case False
    then show ?thesis using Cons.IH [of bs] by (simp add: addObservation_skip)
  qed
qed

lemma addObservation_resources:
  "map resource (entries (foldl (addObservation str g) bs os))
     = map resource (entries bs)
       @ map (\<lambda>ob. ObservationResource
                (mapObservationToFHIR str ob
                   (js ''urn:uuid:'' @ the (map_get (patientUUIDs bs) (obs_patientId ob)))))
           (filter (hasPatientUUID bs) os)"
proof (induction os arbitrary: bs)
  case Nil
  show ?case by simp
next
  case (Cons ob os)
  have same: "filter (hasPatientUUID (addObservation str g bs ob)) os = filter (hasPatientUUID bs) os"
    by (simp add: hasPatientUUID_addObservation cong: filter_cong)
  show ?case
  proof (cases "hasPatientUUID bs ob")
    case True
    then obtain u where u: "map_get (patientUUIDs bs) (obs_patientId ob) = Some u" "u \<noteq> []"
      by (auto simp: hasPatientUUID_iff)
    have "map resource (entries (addObservation str g bs ob))
        = map resource (entries bs)
          @ [ObservationResource (mapObservationToFHIR str ob (js ''urn:uuid:'' @ u))]"
      using u by (simp add: addObservation_def)
    then show ?thesis
      using Cons.IH [of "addObservation str g bs ob"] same True u
      by (simp add: addObservation_uuids)
  next
    case False
    then show ?thesis using Cons.IH [of bs] by (simp add: addObservation_skip)
  qed
qed

lemma addObservation_directives:
  "map (\<lambda>e. ifNoneExist (request e)) (entries (foldl (addObservation str g) bs os))
     = map (\<lambda>e. ifNoneExist (request e)) (entries bs)
       @ map (\<lambda>ob. js ''identifier='' @ FHIR_OBSERVATION_IDENTIFIER_SYSTEM @ js ''|''
                     @ generateObservationId str ob)
           (filter (hasPatientUUID bs) os)"
proof (induction os arbitrary: bs)
  case Nil
  show ?case by simp
next
  case (Cons ob os)
  have same: "filter (hasPatientUUID (addObservation str g bs ob)) os = filter (hasPatientUUID bs) os"
    by (simp add: hasPatientUUID_addObservation cong: filter_cong)
  show ?case
  proof (cases "hasPatientUUID bs ob")
    case True
    then obtain u where u: "map_get (patientUUIDs bs) (obs_patientId ob) = Some u" "u \<noteq> []"
      by (auto simp: hasPatientUUID_iff)
    have "map (\<lambda>e. ifNoneExist (request e)) (entries (addObservation str g bs ob))
        = map (\<lambda>e. ifNoneExist (request e)) (entries bs)
          @ [js ''identifier='' @ FHIR_OBSERVATION_IDENTIFIER_SYSTEM @ js ''|''
               @ generateObservationId str ob]"
      using u by (simp add: addObservation_def)
    then show ?thesis
      using Cons.IH [of "addObservation str g bs ob"] same True by simp
  next
    case False
    then show ?thesis using Cons.IH [of bs] by (simp add: addObservation_skip)
  qed
qed


lemma addPatient_hasPatientUUID:
  assumes "\<forall>i. g i \<noteq> []"
  shows "hasPatientUUID (foldl (addPatient g) \<lparr> entries = [], patientUUIDs = [], calls = 0 \<rparr> ps) ob
     \<longleftrightarrow> obs_patientId ob \<in> set (map patientId ps)"
  unfolding hasPatientUUID_iff addPatient_uuid_present [OF assms]
  by (simp add: map_get_def)

lemma subject_reference_mapObservationToFHIR:
  "subject_reference (mapObservationToFHIR str ob ref) = ref"
  by (simp add: mapObservationToFHIR_def Let_def split: obs_value.splits)

lemma scenario_uuid_nonempty: "\<forall>i. scenario_uuid c i \<noteq> []"
  by (simp add: scenario_uuid_def)

section \<open>Claim C4: observations without a patient in the list\<close>

text \<open>
  C4: with a generator that, like \<open>uuidv4\<close>, never returns the empty string, the bundle
  built from patients and observations is the bundle built from the patients and those
  observations whose patient identifier occurs among the patients' identifiers; the
  number of entries is the number of patients plus the number of those observations;
  and every observation resource among the entries is the mapping of an input
  observation whose patient identifier occurs among the patients' identifiers.
\<close>

theorem orphan_observations_dropped:
  assumes "\<forall>i. uuidv4 i \<noteq> []"
  shows "createFHIRBundle str uuidv4 data =
       createFHIRBundle str uuidv4
         (data \<lparr> observations :=
            filter (\<lambda>ob. obs_patientId ob \<in> set (map patientId (patients data)))
              (observations data) \<rparr>)
     \<and> length (entry (createFHIRBundle str uuidv4 data)) =
         length (patients data)
         + length (filter (\<lambda>ob. obs_patientId ob \<in> set (map patientId (patients data)))
                     (observations data))
     \<and> (\<forall>e \<in> set (entry (createFHIRBundle str uuidv4 data)). \<forall>r.
           resource e = ObservationResource r \<longrightarrow>
             (\<exists>ob \<in> set (observations data).
                obs_patientId ob \<in> set (map patientId (patients data))
                \<and> r = mapObservationToFHIR str ob (subject_reference r)))"
proof (intro conjI)
  let ?bs = "foldl (addPatient uuidv4) \<lparr> entries = [], patientUUIDs = [], calls = 0 \<rparr> (patients data)"
  let ?own = "\<lambda>ob. obs_patientId ob \<in> set (map patientId (patients data))"
  have own: "filter (hasPatientUUID ?bs) os = filter ?own os" for os
    by (simp add: addPatient_hasPatientUUID [OF assms] cong: filter_cong)
  show "createFHIRBundle str uuidv4 data =
       createFHIRBundle str uuidv4 (data \<lparr> observations := filter ?own (observations data) \<rparr>)"
    using addObservation_filter [of str uuidv4 ?bs "observations data"]
    by (simp add: createFHIRBundle_def Let_def own)
  have res: "map resource (entry (createFHIRBundle str uuidv4 data)) =
     map (\<lambda>p. PatientResource (mapPatientToFHIR p)) (patients data)
     @ map (\<lambda>ob. ObservationResource
               (mapObservationToFHIR str ob
                  (js ''urn:uuid:'' @ the (map_get (patientUUIDs ?bs) (obs_patientId ob)))))
         (filter ?own (observations data))"
    by (simp add: createFHIRBundle_def Let_def addObservation_resources addPatient_resources own)
  have "length (map resource (entry (createFHIRBundle str uuidv4 data))) =
      length (patients data) + length (filter ?own (observations data))"
    unfolding res by simp
  then show "length (entry (createFHIRBundle str uuidv4 data)) =
      length (patients data) + length (filter ?own (observations data))"
    by simp
  show "\<forall>e \<in> set (entry (createFHIRBundle str uuidv4 data)). \<forall>r.
           resource e = ObservationResource r \<longrightarrow>
             (\<exists>ob \<in> set (observations data). ?own ob
                \<and> r = mapObservationToFHIR str ob (subject_reference r))"
  proof (intro ballI allI impI)
    fix e r
    assume e: "e \<in> set (entry (createFHIRBundle str uuidv4 data))"
      and r: "resource e = ObservationResource r"
    from e have "resource e \<in> set (map resource (entry (createFHIRBundle str uuidv4 data)))"
      by simp
    then have "ObservationResource r \<in>
        set (map (\<lambda>ob. ObservationResource
               (mapObservationToFHIR str ob
                  (js ''urn:uuid:'' @ the (map_get (patientUUIDs ?bs) (obs_patientId ob)))))
         (filter ?own (observations data)))"
      unfolding res r by auto
    then obtain ob where ob: "ob \<in> set (observations data)" "?own ob"
        "r = mapObservationToFHIR str ob
               (js ''urn:uuid:'' @ the (map_get (patientUUIDs ?bs) (obs_patientId ob)))"
      by auto
    from ob(3) have "subject_reference r
        = js ''urn:uuid:'' @ the (map_get (patientUUIDs ?bs) (obs_patientId ob))"
      by (simp add: subject_reference_mapObservationToFHIR)
    with ob show "\<exists>ob \<in> set (observations data). ?own ob
                \<and> r = mapObservationToFHIR str ob (subject_reference r)"
      by auto
  qed
qed

theorem orphan_observations_dropped_witness:
  "(\<forall>i. scenario_uuid (cu CHR ''u'') i \<noteq> [])
   \<and> createFHIRBundle (\<lambda>n. js ''72'') (scenario_uuid (cu CHR ''u'')) scenario_data =
       createFHIRBundle (\<lambda>n. js ''72'') (scenario_uuid (cu CHR ''u''))
         (scenario_data \<lparr> observations :=
            [scenario_observation (js ''P001'') (NumberValue (Finite 72)),
             scenario_observation (js ''P002'') (StringValue (js ''high''))] \<rparr>)
   \<and> length (entry (createFHIRBundle (\<lambda>n. js ''72'') (scenario_uuid (cu CHR ''u'')) scenario_data)) = 4
   \<and> (\<exists>e \<in> set (entry (createFHIRBundle (\<lambda>n. js ''72'') (scenario_uuid (cu CHR ''u'')) scenario_data)).
        \<exists>r. resource e = ObservationResource r
          \<and> (\<exists>ob \<in> set (observations scenario_data).
                obs_patientId ob \<in> set (map patientId (patients scenario_data))
                \<and> r = mapObservationToFHIR (\<lambda>n. js ''72'') ob (subject_reference r)))"
proof -
  have f: "filter (\<lambda>ob. obs_patientId ob \<in> set (map patientId (patients scenario_data)))
             (observations scenario_data)
        = [scenario_observation (js ''P001'') (NumberValue (Finite 72)),
           scenario_observation (js ''P002'') (StringValue (js ''high''))]"
    by (simp add: scenario_data_def scenario_patient_def scenario_observation_def js_def)
  have n: "length (patients scenario_data) = 2" by (simp add: scenario_data_def)
  note inst = orphan_observations_dropped [where ?uuidv4.0 = "scenario_uuid (cu CHR ''u'')"
        and str = "\<lambda>n. js ''72''" and data = scenario_data, OF scenario_uuid_nonempty]
  from inst have a: "createFHIRBundle (\<lambda>n. js ''72'') (scenario_uuid (cu CHR ''u'')) scenario_data =
       createFHIRBundle (\<lambda>n. js ''72'') (scenario_uuid (cu CHR ''u''))
         (scenario_data \<lparr> observations :=
            [scenario_observation (js ''P001'') (NumberValue (Finite 72)),
             scenario_observation (js ''P002'') (StringValue (js ''high''))] \<rparr>)"
    unfolding f by (rule conjunct1)
  from inst have "length (entry (createFHIRBundle (\<lambda>n. js ''72'') (scenario_uuid (cu CHR ''u'')) scenario_data))
      = length (patients scenario_data)
        + length [scenario_observation (js ''P001'') (NumberValue (Finite 72)),
                  scenario_observation (js ''P002'') (StringValue (js ''high''))]"
    unfolding f by blast
  then have b: "length (entry (createFHIRBundle (\<lambda>n. js ''72'') (scenario_uuid (cu CHR ''u'')) scenario_data)) = 4"
    unfolding n by simp
  let ?B = "createFHIRBundle (\<lambda>n. js ''72'') (scenario_uuid (cu CHR ''u'')) scenario_data"
  have l: "resource (last (entry ?B)) =
      ObservationResource
        (mapObservationToFHIR (\<lambda>n. js ''72'')
           (scenario_observation (js ''P002'') (StringValue (js ''high''))) (js ''urn:uuid:uu''))"
    by code_simp
  have m: "last (entry ?B) \<in> set (entry ?B)" using b by (intro last_in_set) auto
  from inst m l have c: "\<exists>e \<in> set (entry ?B).
        \<exists>r. resource e = ObservationResource r
          \<and> (\<exists>ob \<in> set (observations scenario_data).
                obs_patientId ob \<in> set (map patientId (patients scenario_data))
                \<and> r = mapObservationToFHIR (\<lambda>n. js ''72'') ob (subject_reference r))"
    by blast
  from scenario_uuid_nonempty [of "cu CHR ''u''"] a b c show ?thesis by blast
qed

section \<open>Claim C5: the idempotency directives do not depend on the generated identities\<close>

text \<open>
  C5: two runs of the bundle builder on the same parsed data, with any two generators
  of non-empty identities, give the same sequence of create-if-absent conditions: the
  patients' conditions on their namespaced identifiers, in input order, then the
  conditions of the retained observations on their namespaced composite identifiers.
\<close>

theorem idempotency_directives_repeatable:
  assumes "\<forall>i. uuid1 i \<noteq> []" and "\<forall>i. uuid2 i \<noteq> []"
  shows "map (\<lambda>e. ifNoneExist (request e)) (entry (createFHIRBundle str uuid1 data))
       = map (\<lambda>e. ifNoneExist (request e)) (entry (createFHIRBundle str uuid2 data))
     \<and> map (\<lambda>e. ifNoneExist (request e)) (entry (createFHIRBundle str uuid1 data))
       = map (\<lambda>p. js ''identifier=urn:fhir-pipeline:patient-id|'' @ patientId p) (patients data)
         @ map (\<lambda>ob. js ''identifier=urn:fhir-pipeline:observation-id|''
                       @ generateObservationId str ob)
             (filter (\<lambda>ob. obs_patientId ob \<in> set (map patientId (patients data)))
                (observations data))"
proof -
  have dir: "map (\<lambda>e. ifNoneExist (request e)) (entry (createFHIRBundle str g data))
       = map (\<lambda>p. js ''identifier=urn:fhir-pipeline:patient-id|'' @ patientId p) (patients data)
         @ map (\<lambda>ob. js ''identifier=urn:fhir-pipeline:observation-id|''
                       @ generateObservationId str ob)
             (filter (\<lambda>ob. obs_patientId ob \<in> set (map patientId (patients data)))
                (observations data))"
    if g: "\<forall>i. g i \<noteq> []" for g
    by (simp add: createFHIRBundle_def Let_def addObservation_directives addPatient_directives
          addPatient_hasPatientUUID [OF g] FHIR_IDENTIFIER_SYSTEM_def
          FHIR_OBSERVATION_IDENTIFIER_SYSTEM_def js_def cong: filter_cong)
  show ?thesis using dir [OF assms(1)] dir [OF assms(2)] by simp
qed

theorem idempotency_directives_repeatable_witness:
  "(\<forall>i. scenario_uuid (cu CHR ''u'') i \<noteq> []) \<and> (\<forall>i. scenario_uuid (cu CHR ''v'') i \<noteq> [])
   \<and> map (\<lambda>e. ifNoneExist (request e))
        (entry (createFHIRBundle (\<lambda>n. js ''72'') (scenario_uuid (cu CHR ''u'')) scenario_data))
     = map (\<lambda>e. ifNoneExist (request e))
        (entry (createFHIRBundle (\<lambda>n. js ''72'') (scenario_uuid (cu CHR ''v'')) scenario_data))
   \<and> map (\<lambda>e. ifNoneExist (request e))
        (entry (createFHIRBundle (\<lambda>n. js ''72'') (scenario_uuid (cu CHR ''u'')) scenario_data))
     = [js ''identifier=urn:fhir-pipeline:patient-id|P001'',
        js ''identifier=urn:fhir-pipeline:patient-id|P002'',
        js ''identifier=urn:fhir-pipeline:observation-id|P001:heart_rate:2024-01-15:72'',
        js ''identifier=urn:fhir-pipeline:observation-id|P002:heart_rate:2024-01-15:high'']
   \<and> map fullUrl (entry (createFHIRBundle (\<lambda>n. js ''72'') (scenario_uuid (cu CHR ''u'')) scenario_data))
     \<noteq> map fullUrl (entry (createFHIRBundle (\<lambda>n. js ''72'') (scenario_uuid (cu CHR ''v'')) scenario_data))"
proof -
  have f1: "map fullUrl (entry (createFHIRBundle (\<lambda>n. js ''72'') (scenario_uuid (cu CHR ''u'')) scenario_data))
      = [js ''urn:uuid:u'', js ''urn:uuid:uu'', js ''urn:uuid:uuu'', js ''urn:uuid:uuuu'']"
    by code_simp
  have f2: "map fullUrl (entry (createFHIRBundle (\<lambda>n. js ''72'') (scenario_uuid (cu CHR ''v'')) scenario_data))
      = [js ''urn:uuid:v'', js ''urn:uuid:vv'', js ''urn:uuid:vvv'', js ''urn:uuid:vvvv'']"
    by code_simp
  have ne: "map fullUrl (entry (createFHIRBundle (\<lambda>n. js ''72'') (scenario_uuid (cu CHR ''u'')) scenario_data))
     \<noteq> map fullUrl (entry (createFHIRBundle (\<lambda>n. js ''72'') (scenario_uuid (cu CHR ''v'')) scenario_data))"
    unfolding f1 f2 by (simp add: js_def)
  have rhs: "map (\<lambda>p. js ''identifier=urn:fhir-pipeline:patient-id|'' @ patientId p)
        (patients scenario_data)
      @ map (\<lambda>ob. js ''identifier=urn:fhir-pipeline:observation-id|''
                    @ generateObservationId (\<lambda>n. js ''72'') ob)
          (filter (\<lambda>ob. obs_patientId ob \<in> set (map patientId (patients scenario_data)))
             (observations scenario_data))
      = [js ''identifier=urn:fhir-pipeline:patient-id|P001'',
        js ''identifier=urn:fhir-pipeline:patient-id|P002'',
        js ''identifier=urn:fhir-pipeline:observation-id|P001:heart_rate:2024-01-15:72'',
        js ''identifier=urn:fhir-pipeline:observation-id|P002:heart_rate:2024-01-15:high'']"
    by (simp add: scenario_data_def scenario_patient_def scenario_observation_def
          generateObservationId_def valueToString_def js_def cu_def)
  note inst = idempotency_directives_repeatable [where ?uuid1.0 = "scenario_uuid (cu CHR ''u'')"
        and ?uuid2.0 = "scenario_uuid (cu CHR ''v'')" and str = "\<lambda>n. js ''72''"
        and data = scenario_data, OF scenario_uuid_nonempty scenario_uuid_nonempty]
  from inst have a: "map (\<lambda>e. ifNoneExist (request e))
        (entry (createFHIRBundle (\<lambda>n. js ''72'') (scenario_uuid (cu CHR ''u'')) scenario_data))
     = map (\<lambda>e. ifNoneExist (request e))
        (entry (createFHIRBundle (\<lambda>n. js ''72'') (scenario_uuid (cu CHR ''v'')) scenario_data))"
    by (rule conjunct1)
  from inst have b: "map (\<lambda>e. ifNoneExist (request e))
        (entry (createFHIRBundle (\<lambda>n. js ''72'') (scenario_uuid (cu CHR ''u'')) scenario_data))
     = [js ''identifier=urn:fhir-pipeline:patient-id|P001'',
        js ''identifier=urn:fhir-pipeline:patient-id|P002'',
        js ''identifier=urn:fhir-pipeline:observation-id|P001:heart_rate:2024-01-15:72'',
        js ''identifier=urn:fhir-pipeline:observation-id|P002:heart_rate:2024-01-15:high'']"
    unfolding rhs by (rule conjunct2)
  from scenario_uuid_nonempty [of "cu CHR ''u''"] scenario_uuid_nonempty [of "cu CHR ''v''"] a b ne
  show ?thesis by blast
qed

section \<open>Claim C8: the order of the entries\<close>

text \<open>
  C8: with a generator of non-empty identities, the resources of the bundle's entries
  are the mapped patients in the order of the input patient list, followed by the
  mapped observations whose patient is in the list, in the order of the input
  observation list, each referring to the identity assigned to its patient.
\<close>

theorem bundle_entry_order:
  assumes "\<forall>i. uuidv4 i \<noteq> []"
  shows "map resource (entry (createFHIRBundle str uuidv4 data)) =
     map (\<lambda>p. PatientResource (mapPatientToFHIR p)) (patients data)
     @ map (\<lambda>ob. ObservationResource
               (mapObservationToFHIR str ob
                  (js ''urn:uuid:'' @ the (map_get
                      (patientUUIDs (foldl (addPatient uuidv4)
                          \<lparr> entries = [], patientUUIDs = [], calls = 0 \<rparr> (patients data)))
                      (obs_patientId ob)))))
         (filter (\<lambda>ob. obs_patientId ob \<in> set (map patientId (patients data)))
            (observations data))"
  by (simp add: createFHIRBundle_def Let_def addObservation_resources addPatient_resources
        addPatient_hasPatientUUID [OF assms] cong: filter_cong)

theorem bundle_entry_order_witness:
  "(\<forall>i. scenario_uuid (cu CHR ''u'') i \<noteq> [])
   \<and> map resource (entry (createFHIRBundle (\<lambda>n. js ''72'') (scenario_uuid (cu CHR ''u'')) scenario_data)) =
       [PatientResource (mapPatientToFHIR (scenario_patient (js ''P001''))),
        PatientResource (mapPatientToFHIR (scenario_patient (js ''P002''))),
        ObservationResource
          (mapObservationToFHIR (\<lambda>n. js ''72'')
             (scenario_observation (js ''P001'') (NumberValue (Finite 72))) (js ''urn:uuid:u'')),
        ObservationResource
          (mapObservationToFHIR (\<lambda>n. js ''72'')
             (scenario_observation (js ''P002'') (StringValue (js ''high''))) (js ''urn:uuid:uu''))]"
proof -
  have u: "patientUUIDs (foldl (addPatient (scenario_uuid (cu CHR ''u'')))
             \<lparr> entries = [], patientUUIDs = [], calls = 0 \<rparr> (patients scenario_data))
        = [(js ''P001'', js ''u''), (js ''P002'', js ''uu'')]"
    by (simp add: scenario_data_def scenario_patient_def scenario_uuid_def addPatient_def
          Let_def map_set_def map_has_def js_def cu_def)
  have p: "patients scenario_data = [scenario_patient (js ''P001''), scenario_patient (js ''P002'')]"
    by (simp add: scenario_data_def)
  have f: "filter (\<lambda>ob. obs_patientId ob \<in> set (map patientId (patients scenario_data)))
             (observations scenario_data)
        = [scenario_observation (js ''P001'') (NumberValue (Finite 72)),
           scenario_observation (js ''P002'') (StringValue (js ''high''))]"
    by (simp add: scenario_data_def scenario_patient_def scenario_observation_def js_def)
  have g: "map_get [(js ''P001'', js ''u''), (js ''P002'', js ''uu'')]
             (obs_patientId (scenario_observation (js ''P001'') v)) = Some (js ''u'')"
      "map_get [(js ''P001'', js ''u''), (js ''P002'', js ''uu'')]
             (obs_patientId (scenario_observation (js ''P002'') v)) = Some (js ''uu'')" for v
    by (simp_all add: map_get_def scenario_observation_def js_def)
  have "map resource (entry (createFHIRBundle (\<lambda>n. js ''72'') (scenario_uuid (cu CHR ''u'')) scenario_data)) =
       [PatientResource (mapPatientToFHIR (scenario_patient (js ''P001''))),
        PatientResource (mapPatientToFHIR (scenario_patient (js ''P002''))),
        ObservationResource
          (mapObservationToFHIR (\<lambda>n. js ''72'')
             (scenario_observation (js ''P001'') (NumberValue (Finite 72))) (js ''urn:uuid:u'')),
        ObservationResource
          (mapObservationToFHIR (\<lambda>n. js ''72'')
             (scenario_observation (js ''P002'') (StringValue (js ''high''))) (js ''urn:uuid:uu''))]"
    unfolding bundle_entry_order [where ?uuidv4.0 = "scenario_uuid (cu CHR ''u'')" and str = "\<lambda>n. js ''72''"
          and data = scenario_data, OF scenario_uuid_nonempty] u f
    by (simp add: p g js_append)
  with scenario_uuid_nonempty [of "cu CHR ''u''"] show ?thesis by (rule conjI)
qed

section \<open>Claim C3: one patient per identifier, first occurrence wins\<close>





section \<open>Claim C6: numbers and strings as observation values\<close>

text \<open>
  The mapping half of C6 holds: a mapped observation carries a \<open>valueQuantity\<close> exactly
  for a number, a \<open>valueString\<close> exactly for a string, and never both. Both parsers store
  a number exactly when \<open>Number\<close> does not yield \<open>NaN\<close>, and \<open>Number\<close> of an empty or
  blank string is \<open>0\<close>.
\<close>

lemma mapObservationToFHIR_value_exclusive:
  "(valueQuantity (mapObservationToFHIR str ob ref) \<noteq> None
      \<longleftrightarrow> (\<exists>n. observationValue ob = NumberValue n))
   \<and> (valueString (mapObservationToFHIR str ob ref) \<noteq> None
      \<longleftrightarrow> (\<exists>t. observationValue ob = StringValue t))
   \<and> \<not> (valueQuantity (mapObservationToFHIR str ob ref) \<noteq> None
        \<and> valueString (mapObservationToFHIR str ob ref) \<noteq> None)"
  by (cases "observationValue ob") (simp_all add: mapObservationToFHIR_def Let_def)

lemma coerceValue_number_iff:
  "(\<exists>n. coerceValue raw = NumberValue n) \<longleftrightarrow> Number raw \<noteq> None"
  by (auto simp: coerceValue_def split: option.splits)

lemma Number_blank: "trim raw = [] \<Longrightarrow> Number raw = Some (Finite 0)"
  by (simp add: Number_def)

text \<open>
  C6 does not hold of the segmented parser: a result segment whose value field is empty
  or missing is stored with the number \<open>0\<close>, although the empty string does not look
  like a number, and the mapper then emits a \<open>valueQuantity\<close> of \<open>0\<close> for it. The tabular
  parser never coerces an empty value, because it emits no observation for a row without
  a value.
\<close>

theorem empty_result_value_becomes_zero:
  "Number [] = Some (Finite 0)
   \<and> extractObservationFromOBX \<lparr> seg_type = js ''OBX'', seg_fields = [js ''1'', js ''ST'', js ''NOTE'', [], []] \<rparr>
        (js ''P001'') (js ''20240115'')
      = Some \<lparr> obs_patientId = js ''P001'', observationType = TypeTag (js ''NOTE''),
               observationValue = NumberValue (Finite 0), observationUnit = [],
               observationDate = js ''2024-01-15'' \<rparr>
   \<and> observations (parseHL7v2 (\<lambda>i. \<lparr> nowMs = i, nowIso = [] \<rparr>)
        (js ''MSH|^~\<newline>PID|1||P001\<newline>OBX|1|ST|NOTE||''))
      = [\<lparr> obs_patientId = js ''P001'', observationType = TypeTag (js ''NOTE''),
            observationValue = NumberValue (Finite 0), observationUnit = [],
            observationDate = [] \<rparr>]
   \<and> valueQuantity (mapObservationToFHIR (\<lambda>n. js ''0'')
         \<lparr> obs_patientId = js ''P001'', observationType = js ''NOTE'',
           observationValue = NumberValue (Finite 0), observationUnit = [],
           observationDate = js ''2024-01-15'' \<rparr> (js ''urn:uuid:u''))
      = Some \<lparr> q_value = Finite 0, q_unit = [], q_system = js ''http://unitsofmeasure.org'',
               q_code = [] \<rparr>"
proof (intro conjI)
  let ?content = "js ''MSH|^~\<newline>PID|1||P001\<newline>OBX|1|ST|NOTE||''"
  show zero: "Number [] = Some (Finite 0)" by (simp add: Number_def trim_def)
  have note_tag: "observationTypeOf (js ''NOTE'') = TypeTag (js ''NOTE'')"
    by (simp add: observationTypeOf_def OBX_CODE_MAP_def inheritedKeys_def sanitize_def
        isAlphaNum_def lowerLetters_def upperLetters_def js_def cu_def)
  show "extractObservationFromOBX \<lparr> seg_type = js ''OBX'', seg_fields = [js ''1'', js ''ST'', js ''NOTE'', [], []] \<rparr>
        (js ''P001'') (js ''20240115'')
      = Some \<lparr> obs_patientId = js ''P001'', observationType = TypeTag (js ''NOTE''),
               observationValue = NumberValue (Finite 0), observationUnit = [],
               observationDate = js ''2024-01-15'' \<rparr>"
    by (simp add: extractObservationFromOBX_def Let_def at_or_def coerceValue_def zero
        parseHL7Date_def js_append)
       (simp add: note_tag [unfolded js_def, simplified] js_def cu_def)
  have words: "js ''MSH'' \<noteq> js ''PID''" "js ''OBX'' \<noteq> js ''PID''"
    "js ''PID'' \<noteq> js ''MSH''" "js ''OBX'' \<noteq> js ''MSH''"
    "js ''MSH'' \<noteq> js ''OBX''" "js ''PID'' \<noteq> js ''OBX''"
    by (simp_all add: js_inject)
  have s: "splitMessages ?content = [?content]"
    by (simp add: splitMessages_def flush_def startsWith_def trim_def isWhiteSpace_def js_def)
  have m: "parseHL7Message ?content
      = [\<lparr> seg_type = js ''MSH'', seg_fields = [js ''^~''] \<rparr>,
         \<lparr> seg_type = js ''PID'', seg_fields = [js ''1'', [], js ''P001''] \<rparr>,
         \<lparr> seg_type = js ''OBX'', seg_fields = [js ''1'', js ''ST'', js ''NOTE'', [], []] \<rparr>]"
    by (simp add: parseHL7Message_def parseHL7Segment_def trim_def isWhiteSpace_def js_def cu_def)
  have p: "map_option patientId (messagePatient (?content, \<lparr> nowMs = 0, nowIso = [] \<rparr>))
      = Some (js ''P001'')"
    unfolding messagePatient_def fst_conv snd_conv m
    by (simp add: words extractPatientFromPID_def Let_def at_or_def) (simp add: js_def cu_def)
  have o: "messageObservations (?content, \<lparr> nowMs = 0, nowIso = [] \<rparr>)
      = [\<lparr> obs_patientId = js ''P001'', observationType = TypeTag (js ''NOTE''),
            observationValue = NumberValue (Finite 0), observationUnit = [],
            observationDate = [] \<rparr>]"
    using p unfolding messageObservations_def messageTimestamp_def fst_conv snd_conv m
    by (auto simp: words extractObservationFromOBX_def Let_def at_or_def
        coerceValue_def zero parseHL7Date_def compactIso_def
        note_tag [unfolded js_def, simplified] js_def cu_def split: option.splits)
  have z: "zip [?content] (map (\<lambda>i. \<lparr> nowMs = i, nowIso = [] \<rparr>) [0 ..< length [?content]])
      = [(?content, \<lparr> nowMs = 0, nowIso = [] \<rparr>)]"
    by simp
  show "observations (parseHL7v2 (\<lambda>i. \<lparr> nowMs = i, nowIso = [] \<rparr>) ?content)
      = [\<lparr> obs_patientId = js ''P001'', observationType = TypeTag (js ''NOTE''),
            observationValue = NumberValue (Finite 0), observationUnit = [],
            observationDate = [] \<rparr>]"
    unfolding parseHL7v2_def Let_def s z parseMessages_observations by (simp add: o)
  show "valueQuantity (mapObservationToFHIR (\<lambda>n. js ''0'')
         \<lparr> obs_patientId = js ''P001'', observationType = js ''NOTE'',
           observationValue = NumberValue (Finite 0), observationUnit = [],
           observationDate = js ''2024-01-15'' \<rparr> (js ''urn:uuid:u''))
      = Some \<lparr> q_value = Finite 0, q_unit = [], q_system = js ''http://unitsofmeasure.org'',
               q_code = [] \<rparr>"
    by (simp add: mapObservationToFHIR_def Let_def)
qed

end
